theory Spec2Isabelle
  imports Main "HOL-Library.Word" "HOL-Library.AList"
begin

section \<open>Machine integers\<close>

text \<open>
  The sources compute with \<^verbatim>\<open>int64_t\<close> and \<^verbatim>\<open>size_t\<close>. Both are modelled as 64-bit
  words (an LP64 target); signed operations read the word through \<open>sint\<close>, and an
  overflowing signed operation wraps around.
\<close>

type_synonym int64_t = "64 word"
type_synonym size_t = "64 word"

text \<open>\<^verbatim>\<open>std::max(a, b)\<close> on \<^verbatim>\<open>int64_t\<close>: \<^verbatim>\<open>(a < b) ? b : a\<close>.\<close>

definition std_max :: "int64_t \<Rightarrow> int64_t \<Rightarrow> int64_t" where
  "std_max a b = (if sint a < sint b then b else a)"

text \<open>\<^verbatim>\<open>std::abs(x)\<close> on \<^verbatim>\<open>int64_t\<close>.\<close>

definition std_abs :: "int64_t \<Rightarrow> int64_t" where
  "std_abs x = (if sint x < 0 then - x else x)"

section \<open>HeightMap (visualize\_tree.cpp)\<close>

text \<open>
  A node is identified by its address (\<^verbatim>\<open>Node*\<close>). \<^verbatim>\<open>HeightMap::m_heights\<close> is a
  \<^verbatim>\<open>std::unordered_map<Node*, int64_t>\<close>: an association list with distinct keys, whose
  order is the iteration order of the range-for loops.
\<close>

type_synonym node_ptr = nat
type_synonym HeightMap = "(node_ptr \<times> int64_t) list"

text \<open>\<^verbatim>\<open>m_heights[k]\<close> read as an rvalue: a missing key is value-initialised to 0.\<close>

definition subscript :: "HeightMap \<Rightarrow> node_ptr \<Rightarrow> int64_t" where
  "subscript m k = (case map_of m k of None \<Rightarrow> 0 | Some v \<Rightarrow> v)"

text \<open>\<^verbatim>\<open>HeightMap()\<close> and \<^verbatim>\<open>HeightMap(std::set<Node*> initials)\<close>.\<close>

definition HeightMap_default :: HeightMap where
  "HeightMap_default = []"

definition HeightMap_initials :: "node_ptr list \<Rightarrow> HeightMap" where
  "HeightMap_initials initials = fold (\<lambda>n m. AList.update n 0 m) initials []"

text \<open>\<^verbatim>\<open>HeightMap::absorb\<close>: for each entry \<open>(k, v)\<close> of \<open>other\<close>,
  \<^verbatim>\<open>m_heights[k] = std::max(m_heights[k], v + 1)\<close>.\<close>

definition absorb :: "HeightMap \<Rightarrow> HeightMap \<Rightarrow> HeightMap" where
  "absorb m other =
     fold (\<lambda>(k, v) h. AList.update k (std_max (subscript h k) (v + 1)) h) other m"

text \<open>\<^verbatim>\<open>HeightMap::max_jump_to\<close>: \<open>self\<close> is \<^verbatim>\<open>this->m_heights\<close>.\<close>

definition max_jump_to :: "HeightMap \<Rightarrow> HeightMap \<Rightarrow> int64_t" where
  "max_jump_to self target =
     fold (\<lambda>(k, v) result.
             case map_of target k of
               None \<Rightarrow> result
             | Some t \<Rightarrow> std_max result (std_abs (t - v)))
          self 0"

text \<open>
  The quantity the comment above \<^verbatim>\<open>HeightMap\<close> calls the jump distance, as a set of
  integers: the absolute differences of the heights recorded in both maps.
\<close>

definition jump_set :: "HeightMap \<Rightarrow> HeightMap \<Rightarrow> int set" where
  "jump_set a b =
     {sint (std_abs (t - v)) | k v t. map_of a k = Some v \<and> map_of b k = Some t}"

section \<open>Shape and element types\<close>

text \<open>
  Modelled from the spec: the element types, shapes and partial shapes of section 3 and
  their \<open>compatible\<close> relation of section 4.1 (element\_type.hpp, shape.hpp,
  dimension.hpp and partial\_shape.hpp are not among the sources). The spec's "any"
  element type is \<open>dynamic\<close>; the other members of the enumeration beside \<open>i64\<close> and
  \<open>f32\<close> stand for the remaining scalar kinds.
\<close>

datatype element_type =
  dynamic | boolean | bf16 | f16 | f32 | f64 | i8 | i16 | i32 | i64 | u8 | u16 | u32 | u64

definition element_compatible :: "element_type \<Rightarrow> element_type \<Rightarrow> bool" where
  "element_compatible a b = (a = b \<or> a = dynamic \<or> b = dynamic)"

type_synonym Shape = "size_t list"

text \<open>\<^verbatim>\<open>shape_size\<close>: the product of the dimensions, in \<^verbatim>\<open>size_t\<close>.\<close>

definition shape_size :: "Shape \<Rightarrow> size_t" where
  "shape_size shape = fold (\<lambda>d size. size * d) shape 1"

datatype Dimension = dynamic_dim | static_dim size_t

type_synonym Rank = Dimension

definition dimension_compatible :: "Dimension \<Rightarrow> Dimension \<Rightarrow> bool" where
  "dimension_compatible a b =
     (case (a, b) of (static_dim x, static_dim y) \<Rightarrow> x = y | _ \<Rightarrow> True)"

datatype PartialShape = rank_dynamic | rank_static "Dimension list"

definition rank :: "PartialShape \<Rightarrow> Rank" where
  "rank s = (case s of rank_dynamic \<Rightarrow> dynamic_dim
                     | rank_static ds \<Rightarrow> static_dim (of_nat (length ds)))"

text \<open>A concrete \<^verbatim>\<open>Shape\<close> converts to the partial shape with the same dimensions.\<close>

definition PartialShape_of_Shape :: "Shape \<Rightarrow> PartialShape" where
  "PartialShape_of_Shape shape = rank_static (map static_dim shape)"

text \<open>
  Modelled from the spec: \<^verbatim>\<open>PartialShape::dynamic()\<close> (partial\_shape.hpp, not among the
  sources), called without a rank, is the "fully dynamic (unknown rank)" partial shape of
  section 3.
\<close>

definition PartialShape_dynamic :: PartialShape where
  "PartialShape_dynamic = rank_dynamic"

section \<open>Validation errors\<close>

text \<open>
  Modelled from the spec: \<^verbatim>\<open>NODE_VALIDATION_CHECK(node, cond, parts...)\<close> (a macro of
  node.hpp, not among the sources) raises the validation error of section 7 when \<open>cond\<close>
  is false. The error carries the parts streamed into its message; each value is kept
  as it is, not printed. \<^verbatim>\<open>std::vector::at\<close> raises \<^verbatim>\<open>std::out_of_range\<close>.
\<close>

datatype message_part =
  Text string | Type element_type | Rank_of Rank | Size size_t | Shape_of Shape

datatype error = NodeValidationFailure "message_part list" | out_of_range

definition NODE_VALIDATION_CHECK :: "bool \<Rightarrow> message_part list \<Rightarrow> error + unit" where
  "NODE_VALIDATION_CHECK cond parts = (if cond then Inr () else Inl (NodeValidationFailure parts))"

definition at :: "'a list \<Rightarrow> nat \<Rightarrow> error + 'a" where
  "at xs i = (if i < length xs then Inr (xs ! i) else Inl out_of_range)"

section \<open>PriorBoxClustered (prior\_box\_clustered.cpp)\<close>

text \<open>
  An argument of the node, seen through the accessors the inference rule calls. The
  constructor passes its arguments through \<^verbatim>\<open>check_single_output_args\<close>, so an argument
  is a node with exactly one output: \<open>output_element_type\<close> and
  \<open>output_partial_shape\<close> are what \<^verbatim>\<open>get_input_element_type(i)\<close> and
  \<^verbatim>\<open>get_input_partial_shape(i)\<close> read. \<open>as_Constant\<close> is the result of
  \<^verbatim>\<open>dynamic_pointer_cast<op::Constant>\<close>: for a constant, its shape (\<^verbatim>\<open>get_shape()\<close>) and
  the buffer behind \<^verbatim>\<open>get_data_ptr()\<close> read as \<^verbatim>\<open>int64_t\<close> elements, of which a constant
  of element type i64 holds \<open>shape_size\<close> many.
\<close>

record Constant =
  get_shape :: Shape
  get_data_ptr :: "int64_t list"

record Argument =
  output_element_type :: element_type
  output_partial_shape :: PartialShape
  as_Constant :: "Constant option"

text \<open>The \<^verbatim>\<open>float\<close> attributes are only stored and copied: a 32-bit pattern.\<close>

type_synonym float = "32 word"

text \<open>
  The node: its arguments, its attributes, and the two pieces of state the inference
  rule writes, the type of output 0 (\<^verbatim>\<open>set_output_type\<close>) and the inputs marked by
  \<^verbatim>\<open>set_input_is_relevant_to_shape\<close>.
\<close>

record PriorBoxClustered =
  m_description :: string
  m_arguments :: "Argument list"
  m_num_priors :: size_t
  m_widths :: "float list"
  m_heights :: "float list"
  m_clip :: bool
  m_step_widths :: float
  m_step_heights :: float
  m_offset :: float
  m_variances :: "float list"
  output_type :: "(element_type \<times> PartialShape) option"
  input_is_relevant_to_shape :: "nat list"

definition set_output_type ::
  "element_type \<Rightarrow> PartialShape \<Rightarrow> PriorBoxClustered \<Rightarrow> PriorBoxClustered" where
  "set_output_type et ps node = node\<lparr>output_type := Some (et, ps)\<rparr>"

definition set_input_is_relevant_to_shape :: "nat \<Rightarrow> PriorBoxClustered \<Rightarrow> PriorBoxClustered" where
  "set_input_is_relevant_to_shape i node =
     node\<lparr>input_is_relevant_to_shape := i # input_is_relevant_to_shape node\<rparr>"

text \<open>
  \<^verbatim>\<open>op::PriorBoxClustered::validate_and_infer_types\<close>: the node with its output type
  set, or the error of the first failing check. \<^verbatim>\<open>4 * layer_shape[0] * layer_shape[1] *
  m_num_priors\<close> is computed in 64 bits; the \<^verbatim>\<open>int64_t\<close> factors convert to \<^verbatim>\<open>size_t\<close>
  with the same bits. \<^verbatim>\<open>get_argument(0)\<close> is the node behind input 0.
\<close>

definition validate_and_infer_types :: "PriorBoxClustered \<Rightarrow> error + PriorBoxClustered" where
  "validate_and_infer_types node =
     (case at (m_arguments node) 0 of Inl e \<Rightarrow> Inl e | Inr layer_shape_input \<Rightarrow>
      let layer_shape_et = output_element_type layer_shape_input in
      case NODE_VALIDATION_CHECK (element_compatible layer_shape_et i64)
             [Text ''layer shape input must have element type i64, but has '',
              Type layer_shape_et] of Inl e \<Rightarrow> Inl e | Inr _ \<Rightarrow>
      case at (m_arguments node) 1 of Inl e \<Rightarrow> Inl e | Inr image_shape_input \<Rightarrow>
      let image_shape_et = output_element_type image_shape_input in
      case NODE_VALIDATION_CHECK (element_compatible image_shape_et i64)
             [Text ''image shape input must have element type i64, but has '',
              Type image_shape_et] of Inl e \<Rightarrow> Inl e | Inr _ \<Rightarrow>
      let layer_shape_rank = rank (output_partial_shape layer_shape_input);
          image_shape_rank = rank (output_partial_shape image_shape_input) in
      case NODE_VALIDATION_CHECK (dimension_compatible layer_shape_rank image_shape_rank)
             [Text ''layer shape input rank '', Rank_of layer_shape_rank,
              Text '' must match image shape input rank '', Rank_of image_shape_rank]
        of Inl e \<Rightarrow> Inl e | Inr _ \<Rightarrow>
      case NODE_VALIDATION_CHECK (length (m_widths node) = unat (m_num_priors node))
             [Text ''Num_priors '', Size (m_num_priors node),
              Text '' doesn't match size of widths vector '',
              Size (of_nat (length (m_widths node)))] of Inl e \<Rightarrow> Inl e | Inr _ \<Rightarrow>
      case NODE_VALIDATION_CHECK (length (m_heights node) = unat (m_num_priors node))
             [Text ''Num_priors '', Size (m_num_priors node),
              Text '' doesn't match size of heights vector '',
              Size (of_nat (length (m_heights node)))] of Inl e \<Rightarrow> Inl e | Inr _ \<Rightarrow>
      let node1 = set_input_is_relevant_to_shape 0 node in
      case as_Constant layer_shape_input of
        Some const_shape \<Rightarrow>
          (case NODE_VALIDATION_CHECK (shape_size (get_shape const_shape) = 2)
                  [Text ''Layer shape must have rank 2'', Shape_of (get_shape const_shape)]
           of Inl e \<Rightarrow> Inl e | Inr _ \<Rightarrow>
           let layer_shape = get_data_ptr const_shape in
           Inr (set_output_type f32
                  (PartialShape_of_Shape
                     [2, 4 * (layer_shape ! 0) * (layer_shape ! 1) * m_num_priors node1])
                  node1))
      | None \<Rightarrow> Inr (set_output_type f32 PartialShape_dynamic node1))"

text \<open>
  The constructor: the base \<^verbatim>\<open>Op\<close> is built from the kind name and the two arguments,
  the attributes are stored, and \<^verbatim>\<open>constructor_validate_and_infer_types()\<close> runs the
  inference rule at once (section 4.2 of the spec: creating a node immediately invokes
  its kind's inference rule).
\<close>

definition PriorBoxClustered_new ::
  "Argument \<Rightarrow> Argument \<Rightarrow> size_t \<Rightarrow> float list \<Rightarrow> float list \<Rightarrow> bool \<Rightarrow>
   float \<Rightarrow> float \<Rightarrow> float \<Rightarrow> float list \<Rightarrow> error + PriorBoxClustered" where
  "PriorBoxClustered_new layer_shape image_shape num_priors widths heights clip
     step_widths step_heights offset variances =
     validate_and_infer_types
       \<lparr>m_description = ''PriorBoxClustered'',
        m_arguments = [layer_shape, image_shape],
        m_num_priors = num_priors,
        m_widths = widths,
        m_heights = heights,
        m_clip = clip,
        m_step_widths = step_widths,
        m_step_heights = step_heights,
        m_offset = offset,
        m_variances = variances,
        output_type = None,
        input_is_relevant_to_shape = []\<rparr>"

text \<open>
  Modelled from the spec: \<^verbatim>\<open>check_new_args_count\<close> (node.hpp, not among the sources) is
  the duplication contract's check of section 4.2: the replacement list's length must
  equal the node's input arity, else a validation error.
\<close>

definition check_new_args_count :: "PriorBoxClustered \<Rightarrow> Argument list \<Rightarrow> error + unit" where
  "check_new_args_count node new_args =
     NODE_VALIDATION_CHECK (length new_args = length (m_arguments node))
       [Text ''expected argument count '', Size (of_nat (length (m_arguments node))),
        Text '', actual argument count '', Size (of_nat (length new_args))]"

text \<open>\<^verbatim>\<open>op::PriorBoxClustered::copy_with_new_args\<close>.\<close>

definition copy_with_new_args :: "PriorBoxClustered \<Rightarrow> Argument list \<Rightarrow> error + PriorBoxClustered" where
  "copy_with_new_args node new_args =
     (case check_new_args_count node new_args of Inl e \<Rightarrow> Inl e | Inr _ \<Rightarrow>
      case at new_args 0 of Inl e \<Rightarrow> Inl e | Inr a0 \<Rightarrow>
      case at new_args 1 of Inl e \<Rightarrow> Inl e | Inr a1 \<Rightarrow>
      PriorBoxClustered_new a0 a1 (m_num_priors node) (m_widths node) (m_heights node)
        (m_clip node) (m_step_widths node) (m_step_heights node) (m_offset node)
        (m_variances node))"

text \<open>
  The conditions under which, in the spec's words, construction fails: an input's
  element type is incompatible with i64, the inputs' ranks are incompatible, the length
  of the widths or heights attribute differs from \<open>num_priors\<close>, or the first input is
  a constant whose element count is not 2.
\<close>

definition spec_check_fails ::
  "Argument \<Rightarrow> Argument \<Rightarrow> size_t \<Rightarrow> float list \<Rightarrow> float list \<Rightarrow> bool" where
  "spec_check_fails layer_shape image_shape num_priors widths heights =
     (\<not> element_compatible (output_element_type layer_shape) i64 \<or>
      \<not> element_compatible (output_element_type image_shape) i64 \<or>
      \<not> dimension_compatible (rank (output_partial_shape layer_shape))
                              (rank (output_partial_shape image_shape)) \<or>
      length widths \<noteq> unat num_priors \<or>
      length heights \<noteq> unat num_priors \<or>
      (\<exists>c. as_Constant layer_shape = Some c \<and> shape_size (get_shape c) \<noteq> 2))"

text \<open>The errors of the six checks, each with the values it reports.\<close>

definition spec_check_errors ::
  "Argument \<Rightarrow> Argument \<Rightarrow> size_t \<Rightarrow> float list \<Rightarrow> float list \<Rightarrow> error set" where
  "spec_check_errors layer_shape image_shape num_priors widths heights =
     {NodeValidationFailure
        [Text ''layer shape input must have element type i64, but has '',
         Type (output_element_type layer_shape)],
      NodeValidationFailure
        [Text ''image shape input must have element type i64, but has '',
         Type (output_element_type image_shape)],
      NodeValidationFailure
        [Text ''layer shape input rank '', Rank_of (rank (output_partial_shape layer_shape)),
         Text '' must match image shape input rank '',
         Rank_of (rank (output_partial_shape image_shape))],
      NodeValidationFailure
        [Text ''Num_priors '', Size num_priors,
         Text '' doesn't match size of widths vector '', Size (of_nat (length widths))],
      NodeValidationFailure
        [Text ''Num_priors '', Size num_priors,
         Text '' doesn't match size of heights vector '', Size (of_nat (length heights))]}
     \<union> {NodeValidationFailure [Text ''Layer shape must have rank 2'', Shape_of (get_shape c)]
        | c. as_Constant layer_shape = Some c}"

text \<open>
  Two kinds of argument for concrete instances: the node built by
  \<^verbatim>\<open>op::Constant::create(element::i64, shape, values)\<close>, whose output has the constant's
  type and shape, and a non-constant node such as a parameter.
\<close>

definition constant_i64 :: "Shape \<Rightarrow> int64_t list \<Rightarrow> Argument" where
  "constant_i64 shape values =
     \<lparr>output_element_type = i64,
      output_partial_shape = PartialShape_of_Shape shape,
      as_Constant = Some \<lparr>get_shape = shape, get_data_ptr = values\<rparr>\<rparr>"

definition parameter :: "element_type \<Rightarrow> PartialShape \<Rightarrow> Argument" where
  "parameter et ps =
     \<lparr>output_element_type = et, output_partial_shape = ps, as_Constant = None\<rparr>"

section \<open>The node graph (visualize\_tree.cpp, lines 184 to 211)\<close>

text \<open>
  The graph as \<^verbatim>\<open>run_on_module\<close> reads it. A node has a kind (\<^verbatim>\<open>description()\<close>), a name,
  its argument nodes, and its outputs; an output has an element type, a partial shape and
  the inputs it feeds, of which the pass reads the node (\<^verbatim>\<open>input.get_node()\<close>). Nodes live
  in a store that maps an address to the node there.
\<close>

record Output =
  get_element_type :: element_type
  get_partial_shape :: PartialShape
  get_target_inputs :: "node_ptr list"

record Node =
  description :: string
  get_name :: string
  get_arguments :: "node_ptr list"
  outputs :: "Output list"
  is_output :: bool

type_synonym store = "node_ptr \<Rightarrow> Node"

text \<open>
  \<^verbatim>\<open>height_maps\<close> is an \<^verbatim>\<open>unordered_map<Node*, HeightMap>\<close> that is only read and written
  through \<^verbatim>\<open>operator[]\<close>, where a missing key reads as \<^verbatim>\<open>HeightMap()\<close>.
\<close>

type_synonym height_maps = "node_ptr \<Rightarrow> HeightMap"

text \<open>The first loop (lines 186 to 196), over \<^verbatim>\<open>f->get_ops()\<close>.\<close>

definition seed_height_maps :: "store \<Rightarrow> node_ptr list \<Rightarrow> height_maps" where
  "seed_height_maps nodes ops =
     fold (\<lambda>node hm.
             if description (nodes node) = ''Result''
             then hm(node := HeightMap_initials [node])
             else hm(node := HeightMap_default))
          ops (\<lambda>_. HeightMap_default)"

text \<open>The body of the second loop (lines 203 to 210) for one node.\<close>

definition absorb_target_inputs :: "store \<Rightarrow> node_ptr \<Rightarrow> height_maps \<Rightarrow> height_maps" where
  "absorb_target_inputs nodes node hm =
     fold (\<lambda>output hm.
             fold (\<lambda>target_node hm. hm(node := absorb (hm node) (hm target_node)))
                  (get_target_inputs output) hm)
          (outputs (nodes node)) hm"

text \<open>
  Lines 184 to 211. \<open>order\<close> is the sorted list \<^verbatim>\<open>topological_sort(f->get_ops())\<close> returns
  (graph\_util.hpp is not among the sources), which the code reverses.
\<close>

definition compute_height_maps :: "store \<Rightarrow> node_ptr list \<Rightarrow> node_ptr list \<Rightarrow> height_maps" where
  "compute_height_maps nodes ops order =
     fold (absorb_target_inputs nodes) (rev order) (seed_height_maps nodes ops)"

text \<open>The immediate users of a node, once for each input that reads one of its outputs.\<close>

definition users :: "store \<Rightarrow> node_ptr \<Rightarrow> node_ptr list" where
  "users nodes node = concat (map get_target_inputs (outputs (nodes node)))"

text \<open>The number of calls of \<^verbatim>\<open>absorb\<close> the second loop makes.\<close>

definition absorb_count :: "store \<Rightarrow> node_ptr list \<Rightarrow> nat" where
  "absorb_count nodes order = sum_list (map (\<lambda>node. length (users nodes node)) order)"

text \<open>
  Modelled from the spec: the contract of the topological sort (section 4.4): a total
  order of the given nodes in which every node appears after all of its argument nodes.
\<close>

fun arguments_first :: "store \<Rightarrow> node_ptr list \<Rightarrow> node_ptr list \<Rightarrow> bool" where
  "arguments_first nodes seen [] = True"
| "arguments_first nodes seen (n # ns) =
     (set (get_arguments (nodes n)) \<subseteq> set seen \<and> arguments_first nodes (n # seen) ns)"

definition is_topological_order :: "store \<Rightarrow> node_ptr list \<Rightarrow> node_ptr list \<Rightarrow> bool" where
  "is_topological_order nodes ops order =
     (distinct order \<and> set order = set ops \<and> arguments_first nodes [] order)"

subsection \<open>The analysis in the spec's words\<close>

text \<open>
  Section 4.4 of the spec: a height of 0 is seeded at every sink; then, in reverse
  topological order, for each node and each of its users, every sink recorded for the
  user gets the maximum of the node's current height (0 when none is recorded) and the
  user's height plus 1. What a sink is, is a parameter.
\<close>

definition spec_merge ::
  "(node_ptr \<rightharpoonup> int64_t) \<Rightarrow> (node_ptr \<rightharpoonup> int64_t) \<Rightarrow> (node_ptr \<rightharpoonup> int64_t)" where
  "spec_merge node_heights user_heights =
     (\<lambda>sink. case user_heights sink of
                None \<Rightarrow> node_heights sink
              | Some v \<Rightarrow>
                  Some (std_max (case node_heights sink of None \<Rightarrow> 0 | Some h \<Rightarrow> h) (v + 1)))"

definition spec_heights ::
  "(node_ptr \<Rightarrow> bool) \<Rightarrow> store \<Rightarrow> node_ptr list \<Rightarrow> node_ptr list \<Rightarrow>
   node_ptr \<Rightarrow> (node_ptr \<rightharpoonup> int64_t)" where
  "spec_heights is_sink nodes ops order =
     fold (\<lambda>node H. fold (\<lambda>user H. H(node := spec_merge (H node) (H user)))
                         (users nodes node) H)
          (rev order)
          (\<lambda>n. if n \<in> set ops \<and> is_sink n then [n \<mapsto> 0] else Map.empty)"

text \<open>A sink in the words of the claim, and a sink as the code seeds it.\<close>

definition spec_is_sink :: "store \<Rightarrow> node_ptr \<Rightarrow> bool" where
  "spec_is_sink nodes n = (users nodes n = [] \<or> description (nodes n) = ''Result'')"

definition is_Result :: "store \<Rightarrow> node_ptr \<Rightarrow> bool" where
  "is_Result nodes n = (description (nodes n) = ''Result'')"

text \<open>
  The jump distance in the spec's words: the maximum, over the sinks recorded in both
  maps, of the absolute difference of the two heights, and 0 when there is none.
\<close>

definition height_differences :: "HeightMap \<Rightarrow> HeightMap \<Rightarrow> int set" where
  "height_differences a b =
     {\<bar>sint v - sint t\<bar> | k v t. map_of a k = Some v \<and> map_of b k = Some t}"

definition spec_jump_distance :: "HeightMap \<Rightarrow> HeightMap \<Rightarrow> int" where
  "spec_jump_distance a b =
     (if height_differences a b = {} then 0 else Max (height_differences a b))"

subsection \<open>Two concrete graphs\<close>

text \<open>
  The path \<open>A \<rightarrow> B \<rightarrow> C \<rightarrow> D\<close> at the addresses 1 to 4: a parameter, two unary
  operations and a result, each with one output of element type f32 and shape \<open>{2}\<close>.
\<close>

definition unary_node :: "string \<Rightarrow> string \<Rightarrow> node_ptr list \<Rightarrow> node_ptr list \<Rightarrow> bool \<Rightarrow> Node" where
  "unary_node kind name args targets is_out =
     \<lparr>description = kind, get_name = name, get_arguments = args,
      outputs = [\<lparr>get_element_type = f32,
                  get_partial_shape = rank_static [static_dim 2],
                  get_target_inputs = targets\<rparr>],
      is_output = is_out\<rparr>"

definition path_graph :: store where
  "path_graph n =
     (if n = 1 then unary_node ''Parameter'' ''Parameter_1'' [] [2] False
      else if n = 2 then unary_node ''Abs'' ''Abs_2'' [1] [3] False
      else if n = 3 then unary_node ''Negative'' ''Negative_3'' [2] [4] False
      else unary_node ''Result'' ''Result_4'' [3] [] True)"

text \<open>
  A function with an unused parameter at address 3 beside the edge from the parameter
  at 1 to the result at 2.
\<close>

definition unused_parameter_graph :: store where
  "unused_parameter_graph n =
     (if n = 1 then unary_node ''Parameter'' ''Parameter_1'' [] [2] False
      else if n = 2 then unary_node ''Result'' ''Result_2'' [1] [] True
      else unary_node ''Parameter'' ''Parameter_3'' [] [] False)"


section \<open>The pass (visualize\_tree.cpp, lines 150 to 392)\<close>

text \<open>
  A function of the module is read through \<^verbatim>\<open>f->get_ops()\<close>, the list of its nodes.
  What the pass calls but the sources do not hold is a parameter of the model: the
  environment (\<^verbatim>\<open>getenv\<close>), the topological sort and the traversal order of
  \<^verbatim>\<open>traverse_nodes\<close> (graph\_util.hpp), \<^verbatim>\<open>join\<close> (util.hpp), the printed shape and element
  type of a node with one output (\<^verbatim>\<open>vector_to_string(node->get_shape())\<close> and
  \<^verbatim>\<open>node->get_element_type().c_type_string()\<close>), the type index \<^verbatim>\<open>TI(n)\<close> of a node, the
  index \<^verbatim>\<open>get_n()\<close> of a node that is an \<^verbatim>\<open>op::GetOutputElement\<close>, and whether a file can be
  opened for writing. Each of them returns; none of them is given the means to change a
  node.
\<close>

record Function =
  get_ops :: "node_ptr list"

record externals =
  getenv :: "string \<Rightarrow> string option"
  topological_sort :: "store \<Rightarrow> node_ptr list \<Rightarrow> node_ptr list"
  traverse_nodes :: "store \<Rightarrow> Function \<Rightarrow> node_ptr list"
  join :: "string list \<Rightarrow> string \<Rightarrow> string"
  shape_string :: "Node \<Rightarrow> string"
  c_type_string :: "element_type \<Rightarrow> string"
  TI :: "Node \<Rightarrow> string"
  get_n :: "Node \<Rightarrow> size_t option"
  ofstream_opens :: "string \<Rightarrow> bool"

text \<open>
  The members of \<^verbatim>\<open>pass::VisualizeTree\<close>. A handler of \<^verbatim>\<open>m_ops_to_details\<close> and the
  modifier \<^verbatim>\<open>m_node_modifiers\<close> take the node by const reference; the handler's result is
  what it writes to the label.
\<close>

record VisualizeTree =
  m_ss :: string
  m_nodes_with_attributes :: "node_ptr set"
  m_ops_to_details :: "string \<Rightarrow> (Node \<Rightarrow> string) option"
  m_name :: string
  m_node_modifiers :: "(Node \<Rightarrow> string list \<Rightarrow> string list) option"
  m_dot_only :: bool

text \<open>
  The two function-local statics of \<^verbatim>\<open>get_attributes\<close> (lines 310 and 319), \<^verbatim>\<open>nvtos\<close>
  and \<^verbatim>\<open>nvtot\<close>: \<open>None\<close> until the first call initialises them with what \<^verbatim>\<open>getenv\<close>
  returns then (itself \<open>None\<close> for a null pointer), and fixed from then on.
\<close>

record static_locals =
  nvtos :: "string option option"
  nvtot :: "string option option"

text \<open>
  What the pass can change: the node graph it is given, its own members, the statics of
  \<^verbatim>\<open>get_attributes\<close>, the files it writes, and the commands it runs through \<^verbatim>\<open>popen\<close>.
\<close>

record world =
  node_store :: store
  pass :: VisualizeTree
  statics :: static_locals
  files :: "string \<Rightarrow> string option"
  commands :: "string list"

text \<open>\<^verbatim>\<open>std::to_string\<close> and \<^verbatim>\<open>operator<<\<close> on \<^verbatim>\<open>size_t\<close> and \<^verbatim>\<open>int64_t\<close>: decimal.\<close>

function to_string_nat :: "nat \<Rightarrow> string" where
  "to_string_nat n =
     (if n < 10 then [''0123456789'' ! n]
      else to_string_nat (n div 10) @ [''0123456789'' ! (n mod 10)])"
  by pat_completeness auto
termination
  by (relation "measure id") auto

declare to_string_nat.simps [simp del]

definition to_string :: "size_t \<Rightarrow> string" where
  "to_string n = to_string_nat (unat n)"

definition to_string_int64 :: "int64_t \<Rightarrow> string" where
  "to_string_int64 n =
     (if sint n < 0 then ''-'' @ to_string_nat (nat (- sint n)) else to_string_nat (nat (sint n)))"

text \<open>\<^verbatim>\<open>label_edge\<close> (lines 150 to 178).\<close>

definition label_edge :: "externals \<Rightarrow> Node \<Rightarrow> Node \<Rightarrow> size_t \<Rightarrow> int64_t \<Rightarrow> string" where
  \<open>label_edge ext src dst arg_index jump_distance =
     (if getenv ext ''NGRAPH_VISUALIZE_EDGE_LABELS'' \<noteq> None
      then let output = (case get_n ext dst of Some n \<Rightarrow> n | None \<Rightarrow> 0)
           in ''[label=" '' @ to_string output @ '' -> '' @ to_string arg_index @ '' "]''
      else if getenv ext ''NGRAPH_VISUALIZE_EDGE_JUMP_DISTANCE'' \<noteq> None
      then (if 1 < sint jump_distance
            then ''[label="jump='' @ to_string_int64 jump_distance @ ''"]''
            else [])
      else [])\<close>

text \<open>
  \<^verbatim>\<open>VisualizeTree::get_attributes\<close> (lines 290 to 348): the text for the node and the
  statics after the call.
\<close>

definition get_attributes ::
  "externals \<Rightarrow> VisualizeTree \<Rightarrow> Node \<Rightarrow> static_locals \<Rightarrow> string \<times> static_locals" where
  \<open>get_attributes ext this node st =
     (let attributes = [''shape=box''];
          attributes = (if is_output node
                        then attributes @ [''color=crimson'', ''penwidth=1.5'']
                        else attributes @ [''color=black'']);
          label = ''label="'' @ get_name node;
          st1 = (case nvtos st of
                   None \<Rightarrow> st\<lparr>nvtos := Some (getenv ext ''NGRAPH_VISUALIZE_TREE_OUTPUT_SHAPES'')\<rparr>
                 | Some _ \<Rightarrow> st);
          label = (if nvtos st1 \<noteq> Some None
                   then label @ '' '' @ (if length (outputs node) \<noteq> 1 then ''[skipped]''
                                       else shape_string ext node)
                   else label);
          st2 = (case nvtot st1 of
                   None \<Rightarrow> st1\<lparr>nvtot := Some (getenv ext ''NGRAPH_VISUALIZE_TREE_OUTPUT_TYPES'')\<rparr>
                 | Some _ \<Rightarrow> st1);
          label = (if nvtot st2 \<noteq> Some None
                   then label @ '' '' @ (if length (outputs node) \<noteq> 1 then ''[skipped]''
                                       else c_type_string ext (get_element_type (hd (outputs node))))
                   else label);
          label = (case m_ops_to_details this (TI ext node) of
                     Some eh \<Rightarrow> label @ eh node
                   | None \<Rightarrow> label);
          label = label @ ''"'';
          attributes = attributes @ [label];
          attributes = (case m_node_modifiers this of
                          Some modifier \<Rightarrow> modifier node attributes
                        | None \<Rightarrow> attributes)
      in (''    '' @ get_name node @ '' ['' @ join ext attributes '' '' @ '']\<newline>'', st2))\<close>

text \<open>\<^verbatim>\<open>VisualizeTree::add_attributes\<close> (lines 279 to 288).\<close>

definition add_attributes ::
  "externals \<Rightarrow> store \<Rightarrow> node_ptr \<Rightarrow> VisualizeTree \<times> static_locals \<Rightarrow>
   string \<times> VisualizeTree \<times> static_locals" where
  "add_attributes ext graph node state =
     (case state of (this, st) \<Rightarrow>
      if node \<notin> m_nodes_with_attributes this
      then let this1 = this\<lparr>m_nodes_with_attributes := insert node (m_nodes_with_attributes this)\<rparr>;
               (rc, st1) = get_attributes ext this1 (graph node) st
           in (rc, this1, st1)
      else ([], this, st))"

text \<open>
  The body of the loop over \<^verbatim>\<open>node->get_arguments()\<close> (lines 222 to 262) for one
  argument. The state of the loop is the pass, the statics of \<^verbatim>\<open>get_attributes\<close>,
  \<^verbatim>\<open>fake_node_ctr\<close> and \<^verbatim>\<open>arg_index\<close>.
\<close>

definition max_jump_distance :: size_t where
  "max_jump_distance = 20"

definition visit_argument ::
  "externals \<Rightarrow> store \<Rightarrow> height_maps \<Rightarrow> node_ptr \<Rightarrow> node_ptr \<Rightarrow>
   VisualizeTree \<times> static_locals \<times> size_t \<times> size_t \<Rightarrow>
   VisualizeTree \<times> static_locals \<times> size_t \<times> size_t" where
  \<open>visit_argument ext graph height_maps node arg state =
     (case state of (this, st, fake_node_ctr, arg_index) \<Rightarrow>
      let jump_distance = max_jump_to (height_maps arg) (height_maps node);
          label = label_edge ext (graph arg) (graph node) arg_index jump_distance
      in
      if description (graph arg) = ''Constant'' \<or> description (graph arg) = ''Parameter''
      then
        let clone_name = ''CLONE_'' @ to_string fake_node_ctr;
            color = (if description (graph arg) = ''Parameter'' then ''blue'' else ''black'');
            this1 = this\<lparr>m_ss := m_ss this @ ''    '' @ clone_name
                      @ ''[shape="box" style="dashed,filled" color="'' @ color
                      @ ''" fillcolor="white" label="'' @ get_name (graph arg) @ ''"]\<newline>''\<rparr>;
            this2 = this1\<lparr>m_ss := m_ss this1 @ ''    '' @ clone_name @ '' -> ''
                      @ get_name (graph node) @ label @ ''\<newline>''\<rparr>
        in (this2, st, fake_node_ctr + 1, arg_index + 1)
      else if max_jump_distance < jump_distance
      then
        let (a1, this1, st1) = add_attributes ext graph arg (this, st);
            this1 = this1\<lparr>m_ss := m_ss this1 @ a1\<rparr>;
            (a2, this2, st2) = add_attributes ext graph node (this1, st1);
            this2 = this2\<lparr>m_ss := m_ss this2 @ a2\<rparr>;
            recv_node_name = ''RECV_'' @ to_string fake_node_ctr;
            send_node_name = ''SEND_'' @ to_string fake_node_ctr;
            this3 = this2\<lparr>m_ss := m_ss this2 @ ''    '' @ recv_node_name
                      @ ''[shape="box" style="solid,filled" fillcolor="#ffcccc" label="Receive[''
                      @ get_name (graph arg) @ '']"]\<newline>''\<rparr>;
            this4 = this3\<lparr>m_ss := m_ss this3 @ ''    '' @ send_node_name
                      @ ''[shape="box" style="solid,filled" fillcolor="#ccffcc" label="Send[''
                      @ get_name (graph node) @ '']"]\<newline>''\<rparr>;
            this5 = this4\<lparr>m_ss := m_ss this4 @ ''    '' @ get_name (graph arg) @ '' -> ''
                      @ send_node_name @ label @ ''\<newline>''\<rparr>;
            this6 = this5\<lparr>m_ss := m_ss this5 @ ''    '' @ recv_node_name @ '' -> ''
                      @ get_name (graph node) @ label @ ''\<newline>''\<rparr>
        in (this6, st2, fake_node_ctr + 1, arg_index + 1)
      else
        let (a1, this1, st1) = add_attributes ext graph arg (this, st);
            this1 = this1\<lparr>m_ss := m_ss this1 @ a1\<rparr>;
            (a2, this2, st2) = add_attributes ext graph node (this1, st1);
            this2 = this2\<lparr>m_ss := m_ss this2 @ a2\<rparr>;
            this3 = this2\<lparr>m_ss := m_ss this2 @ ''    '' @ get_name (graph arg) @ '' -> ''
                      @ get_name (graph node) @ label @ ''\<newline>''\<rparr>
        in (this3, st2, fake_node_ctr, arg_index + 1))\<close>

text \<open>The lambda given to \<^verbatim>\<open>traverse_nodes\<close> (lines 218 to 264), for one node.\<close>

definition visit_node ::
  "externals \<Rightarrow> store \<Rightarrow> height_maps \<Rightarrow> node_ptr \<Rightarrow>
   VisualizeTree \<times> static_locals \<times> size_t \<Rightarrow> VisualizeTree \<times> static_locals \<times> size_t" where
  "visit_node ext graph height_maps node state =
     (case state of (this, st, fake_node_ctr) \<Rightarrow>
      case fold (visit_argument ext graph height_maps node) (get_arguments (graph node))
             (this, st, fake_node_ctr, 0)
      of (this1, st1, fake_node_ctr1, arg_index) \<Rightarrow> (this1, st1, fake_node_ctr1))"

text \<open>The body of the loop over the functions (lines 184 to 264).\<close>

definition run_on_function ::
  "externals \<Rightarrow> store \<Rightarrow> Function \<Rightarrow> VisualizeTree \<times> static_locals \<Rightarrow>
   VisualizeTree \<times> static_locals" where
  "run_on_function ext graph f state =
     (case state of (this, st) \<Rightarrow>
      let height_maps =
            compute_height_maps graph (get_ops f) (topological_sort ext graph (get_ops f))
      in case fold (visit_node ext graph height_maps) (traverse_nodes ext graph f) (this, st, 0)
         of (this1, st1, fake_node_ctr) \<Rightarrow> (this1, st1))"

text \<open>\<^verbatim>\<open>VisualizeTree::get_file_ext\<close> (lines 350 to 364).\<close>

definition get_file_ext :: "externals \<Rightarrow> string" where
  "get_file_ext ext =
     (let format = (case getenv ext ''NGRAPH_VISUALIZE_TREE_OUTPUT_FORMAT'' of
                      None \<Rightarrow> ''dot'' | Some v \<Rightarrow> v)
      in case format of
           c # rest \<Rightarrow> if c = CHR ''.'' then rest else format
         | [] \<Rightarrow> format)"

text \<open>\<^verbatim>\<open>VisualizeTree::render\<close> (lines 366 to 392), not on Windows.\<close>

definition render :: "externals \<Rightarrow> world \<Rightarrow> world" where
  \<open>render ext w =
     (let this = pass w;
          dot_file = m_name this @ ''.dot''
      in if ofstream_opens ext dot_file
         then
           let w1 = w\<lparr>files := (files w)(dot_file \<mapsto>
                        ''digraph ngraph\<newline>{\<newline>'' @ m_ss this @ ''}\<newline>'')\<rparr>
           in if \<not> m_dot_only this \<and> get_file_ext ext \<noteq> ''dot''
              then w1\<lparr>commands := commands w1 @
                        [''dot -T'' @ get_file_ext ext @ '' '' @ dot_file @ '' -o''
                         @ m_name this @ ''.'' @ get_file_ext ext]\<rparr>
              else w1
         else w)\<close>

text \<open>\<^verbatim>\<open>pass::VisualizeTree::run_on_module\<close> (lines 180 to 270): the world after the run
  and the value returned.\<close>

definition run_on_module :: "externals \<Rightarrow> Function list \<Rightarrow> world \<Rightarrow> world \<times> bool" where
  "run_on_module ext functions w =
     (let w1 = fold (\<lambda>f w. case run_on_function ext (node_store w) f (pass w, statics w) of
                              (this1, st1) \<Rightarrow> w\<lparr>pass := this1, statics := st1\<rparr>)
                    functions w;
          w2 = render ext w1
      in (w2, False))"

section \<open>Invariants of the analysis\<close>

text \<open>
  The computed maps represent the maps of the spec-level analysis, with distinct keys;
  and after at most \<open>c\<close> calls of \<^verbatim>\<open>absorb\<close> every recorded height lies between 0 and
  \<open>c\<close>.
\<close>

definition refines :: "height_maps \<Rightarrow> (node_ptr \<Rightarrow> (node_ptr \<rightharpoonup> int64_t)) \<Rightarrow> bool" where
  "refines hm H = (\<forall>n. distinct (map fst (hm n)) \<and> map_of (hm n) = H n)"

definition bounded_heights :: "nat \<Rightarrow> height_maps \<Rightarrow> bool" where
  "bounded_heights c hm =
     (\<forall>n. distinct (map fst (hm n)) \<and>
          (\<forall>k v. map_of (hm n) k = Some v \<longrightarrow> 0 \<le> sint v \<and> sint v \<le> int c))"

section \<open>Properties of the machine integers\<close>

lemma sint_std_max: "sint (std_max a b) = max (sint a) (sint b)"
  by (simp add: std_max_def max_def)

lemma sint_bounds64: "- (2 ^ 63) \<le> sint (x :: 64 word)" "sint (x :: 64 word) < 2 ^ 63"
  using sint_ge [of x] sint_lt [of x] by simp_all

lemma sint_uminus64:
  assumes "sint (x :: 64 word) \<noteq> - (2 ^ 63)"
  shows "sint (- x) = - sint x"
proof -
  have "- (2 ^ 63) \<le> - sint x" "- sint x < 2 ^ 63"
    using assms sint_bounds64 [of x] by simp_all
  then have "signed_take_bit 63 (- sint x) = - sint x"
    by (simp add: signed_take_bit_int_eq_self)
  then show ?thesis by (simp add: sint_word_minus)
qed

lemma sint_min64: 
  assumes "sint (x :: 64 word) = - (2 ^ 63)"
  shows "- x = x"
proof -
  have "sint (- (2 ^ 63) :: 64 word) = - (2 ^ 63)" by simp
  with assms have "sint x = sint (- (2 ^ 63) :: 64 word)" by (rule trans [OF _ sym])
  then have "x = - (2 ^ 63)" by (rule word_eq_iff_signed [THEN iffD2])
  then show ?thesis by simp
qed

lemma std_abs_minus: "std_abs (- x) = std_abs x"
proof (cases "sint x = - (2 ^ 63)")
  case True
  then show ?thesis by (simp add: sint_min64)
next
  case False
  then have m: "sint (- x) = - sint x" by (rule sint_uminus64)
  have z: "sint x = 0 \<Longrightarrow> x = 0" by (simp add: signed_eq_0_iff)
  show ?thesis using m z by (auto simp add: std_abs_def)
qed

lemma std_abs_diff_commute: "std_abs (a - b) = std_abs (b - a)"
  using std_abs_minus [of "a - b"] by simp

lemma Max_insert_max:
  fixes a b :: int
  assumes "finite A"
  shows "Max (insert (max a b) A) = Max (insert a (insert b A))"
proof (cases "A = {}")
  case True
  then show ?thesis by (simp add: max.commute)
next
  case False
  then show ?thesis using assms by (simp add: max.assoc max.commute max.left_commute)
qed

lemma sint_max_jump_fold:
  "sint (fold (\<lambda>(k, v) result.
             case map_of target k of
               None \<Rightarrow> result
             | Some t \<Rightarrow> std_max result (std_abs (t - v))) xs r)
   = Max (insert (sint r) {sint (std_abs (t - v)) | k v t. (k, v) \<in> set xs \<and> map_of target k = Some t})"
proof (induction xs arbitrary: r)
  case Nil
  then show ?case by simp
next
  case (Cons p xs)
  obtain k v where p: "p = (k, v)" by (cases p)
  let ?S = "\<lambda>ys. {sint (std_abs (t - v)) | k v t. (k, v) \<in> set ys \<and> map_of target k = Some t}"
  have fin: "finite (?S ys)" for ys
  proof -
    have "?S ys \<subseteq> (\<lambda>(k, v). sint (std_abs (the (map_of target k) - v))) ` set ys"
      by force
    then show ?thesis by (rule finite_subset) simp
  qed
  show ?case
  proof (cases "map_of target k")
    case None
    then have "?S (p # xs) = ?S xs" using p by auto
    then show ?thesis using Cons.IH [of r] None p by simp
  next
    case (Some t)
    then have S: "?S (p # xs) = insert (sint (std_abs (t - v))) (?S xs)" using p by auto
    have "Max (insert (max (sint r) (sint (std_abs (t - v)))) (?S xs))
        = Max (insert (sint r) (insert (sint (std_abs (t - v))) (?S xs)))"
      by (rule Max_insert_max [OF fin])
    then show ?thesis using Cons.IH [of "std_max r (std_abs (t - v))"] Some p S
      by (simp add: sint_std_max)
  qed
qed

lemma sint_max_jump_to:
  assumes "distinct (map fst a)"
  shows "sint (max_jump_to a b) = Max (insert 0 (jump_set a b))"
proof -
  have "{sint (std_abs (t - v)) | k v t. (k, v) \<in> set a \<and> map_of b k = Some t} = jump_set a b"
    using assms by (auto simp add: jump_set_def)
  then show ?thesis
    unfolding max_jump_to_def by (simp add: sint_max_jump_fold)
qed

lemma jump_set_sub: "jump_set a b \<subseteq> jump_set b a"
proof
  fix x assume "x \<in> jump_set a b"
  then obtain k v t where x: "x = sint (std_abs (t - v))"
    and a: "map_of a k = Some v" and b: "map_of b k = Some t"
    unfolding jump_set_def by blast
  from x have "x = sint (std_abs (v - t))" by (simp only: std_abs_diff_commute [of t v])
  with a b show "x \<in> jump_set b a" unfolding jump_set_def by blast
qed

lemma jump_set_commute: "jump_set a b = jump_set b a"
  by (rule equalityI) (rule jump_set_sub)+

text \<open>
  Claim C10: the jump distance is symmetric. For every pair of height maps \<open>a\<close> and
  \<open>b\<close> (the keys of an \<^verbatim>\<open>unordered_map\<close> are distinct), \<open>a.max_jump_to(b)\<close> equals
  \<open>b.max_jump_to(a)\<close>.
\<close>

theorem max_jump_to_symmetric:
  assumes "distinct (map fst a)" and "distinct (map fst b)"
  shows "max_jump_to a b = max_jump_to b a"
proof -
  have "sint (max_jump_to a b) = sint (max_jump_to b a)"
    using assms by (simp add: sint_max_jump_to jump_set_commute [of a b])
  then show ?thesis by (rule word_eq_iff_signed [THEN iffD2])
qed

theorem max_jump_to_symmetric_witness:
  "distinct (map fst [(1 :: node_ptr, 0 :: int64_t), (2, 5)])
   \<and> distinct (map fst [(2 :: node_ptr, 1 :: int64_t), (3, 7)])
   \<and> max_jump_to [(1, 0), (2, 5)] [(2, 1), (3, 7)] = 4
   \<and> max_jump_to [(2, 1), (3, 7)] [(1, 0), (2, 5)] = 4"
proof -
  have a: "distinct (map fst [(1 :: node_ptr, 0 :: int64_t), (2, 5)])" by simp
  have b: "distinct (map fst [(2 :: node_ptr, 1 :: int64_t), (3, 7)])" by simp
  have v: "max_jump_to [(1, 0), (2, 5)] [(2, 1), (3, 7)] = 4"
    by (simp add: max_jump_to_def std_max_def std_abs_def)
  show ?thesis using max_jump_to_symmetric [OF a b] a b v by simp
qed

section \<open>Properties of PriorBoxClustered\<close>

lemmas pbc_defs = PriorBoxClustered_new_def validate_and_infer_types_def
  NODE_VALIDATION_CHECK_def at_def set_output_type_def set_input_is_relevant_to_shape_def
  Let_def

lemma new_fails_iff:
  "isl (PriorBoxClustered_new l i P ws hs clip sw sh off vars) \<longleftrightarrow> spec_check_fails l i P ws hs"
  by (auto simp add: pbc_defs spec_check_fails_def split: option.splits)

lemma new_error:
  "PriorBoxClustered_new l i P ws hs clip sw sh off vars = Inl e \<Longrightarrow> e \<in> spec_check_errors l i P ws hs"
  by (auto simp add: pbc_defs spec_check_errors_def split: option.splits if_splits)

lemma new_constant:
  assumes "as_Constant l = Some c" and "\<not> spec_check_fails l i P ws hs"
  shows "PriorBoxClustered_new l i P ws hs clip sw sh off vars =
    Inr \<lparr>m_description = ''PriorBoxClustered'', m_arguments = [l, i], m_num_priors = P,
         m_widths = ws, m_heights = hs, m_clip = clip, m_step_widths = sw, m_step_heights = sh,
         m_offset = off, m_variances = vars,
         output_type = Some (f32, PartialShape_of_Shape [2, 4 * (get_data_ptr c ! 0) * (get_data_ptr c ! 1) * P]),
         input_is_relevant_to_shape = [0]\<rparr>"
  using assms by (auto simp add: pbc_defs spec_check_fails_def)

lemma new_not_constant:
  assumes "as_Constant l = None" and "\<not> spec_check_fails l i P ws hs"
  shows "PriorBoxClustered_new l i P ws hs clip sw sh off vars =
    Inr \<lparr>m_description = ''PriorBoxClustered'', m_arguments = [l, i], m_num_priors = P,
         m_widths = ws, m_heights = hs, m_clip = clip, m_step_widths = sw, m_step_heights = sh,
         m_offset = off, m_variances = vars,
         output_type = Some (f32, PartialShape_dynamic),
         input_is_relevant_to_shape = [0]\<rparr>"
  using assms by (auto simp add: pbc_defs spec_check_fails_def)

lemma uint_prod:
  fixes H W P :: "64 word"
  assumes "0 \<le> sint H" "0 \<le> sint W" "4 * sint H * sint W * uint P < 2 ^ 64"
  shows "uint (4 * H * W * P) = 4 * sint H * sint W * uint P"
proof -
  have u: "uint x = sint x" if "0 \<le> sint x" for x :: "64 word"
  proof -
    have "sint x < 2 ^ 64" using sint_lt [of x] by simp
    with that have "take_bit 64 (sint x) = sint x" by (simp add: take_bit_int_eq_self)
    then show ?thesis by (simp add: uint_sint)
  qed
  have h: "uint H = sint H" using assms(1) by (rule u)
  have w: "uint W = sint W" using assms(2) by (rule u)
  have "uint (4 * H * W * P) = (4 * uint H * uint W * uint P) mod 2 ^ 64"
    by (simp add: uint_word_ariths mod_mult_left_eq mod_mult_right_eq mult.assoc)
  also have "\<dots> = 4 * sint H * sint W * uint P"
    using assms by (simp add: h w)
  finally show ?thesis .
qed

text \<open>
  Claim C1: when every check of the inference rule passes and the first input is a
  constant holding the two elements \<open>[H, W]\<close>, construction succeeds and the output has
  element type f32 and the static shape \<open>{2, 4 * H * W * num_priors}\<close>, the product being
  the source's \<^verbatim>\<open>size_t\<close> expression; it is the mathematical product whenever \<open>H\<close> and
  \<open>W\<close> are non-negative and the product fits 64 bits. The witness is the instance
  \<open>[3, 4]\<close> with \<open>num_priors = 5\<close>, of shape \<open>{2, 240}\<close>.
\<close>

theorem prior_box_constant_output_shape:
  assumes "as_Constant layer_shape = Some c"
    and "get_data_ptr c = [H, W]"
    and "\<not> spec_check_fails layer_shape image_shape P ws hs"
  shows "\<exists>node. PriorBoxClustered_new layer_shape image_shape P ws hs clip sw sh off vars = Inr node
           \<and> output_type node = Some (f32, PartialShape_of_Shape [2, 4 * H * W * P])
           \<and> (0 \<le> sint H \<and> 0 \<le> sint W \<and> 4 * sint H * sint W * uint P < 2 ^ 64
                \<longrightarrow> uint (4 * H * W * P) = 4 * sint H * sint W * uint P)"
  using new_constant [OF assms(1) assms(3)] assms(2) uint_prod [of H W P] by simp

theorem prior_box_constant_output_shape_witness:
  "as_Constant (constant_i64 [2] [3, 4]) = Some \<lparr>get_shape = [2], get_data_ptr = [3, 4]\<rparr>
   \<and> \<not> spec_check_fails (constant_i64 [2] [3, 4]) (constant_i64 [2] [300, 300]) 5
         [0, 0, 0, 0, 0] [0, 0, 0, 0, 0]
   \<and> (\<exists>node. PriorBoxClustered_new (constant_i64 [2] [3, 4]) (constant_i64 [2] [300, 300]) 5
                [0, 0, 0, 0, 0] [0, 0, 0, 0, 0] False 0 0 0 [] = Inr node
         \<and> output_type node = Some (f32, rank_static [static_dim 2, static_dim 240]))"
proof -
  have c: "as_Constant (constant_i64 [2] [3, 4]) = Some \<lparr>get_shape = [2], get_data_ptr = [3, 4]\<rparr>"
    by (simp add: constant_i64_def)
  have d: "get_data_ptr \<lparr>get_shape = [2], get_data_ptr = [3, 4 :: int64_t]\<rparr> = [3, 4]"
    by simp
  have f: "\<not> spec_check_fails (constant_i64 [2] [3, 4]) (constant_i64 [2] [300, 300]) 5
         [0, 0, 0, 0, 0] [0, 0, 0, 0, 0]"
    by (simp add: spec_check_fails_def constant_i64_def element_compatible_def
        dimension_compatible_def rank_def PartialShape_of_Shape_def shape_size_def)
  show ?thesis
    using prior_box_constant_output_shape [OF c d f, of False 0 0 0 "[]"] c f
    by (simp add: PartialShape_of_Shape_def)
qed

text \<open>
  Claim C2 as stated fails: with a first input that is not a constant the output's
  partial shape is \<^verbatim>\<open>PartialShape::dynamic()\<close>, of unknown rank, not a shape of rank 2
  with two dynamic dimensions.
\<close>

theorem prior_box_dynamic_rank_2_counterexample:
  "map_sum id output_type
     (PriorBoxClustered_new (parameter i64 (rank_static [static_dim 2]))
        (parameter i64 (rank_static [static_dim 2])) 1 [0] [0] False 0 0 0 [])
     = Inr (Some (f32, rank_dynamic))
   \<and> rank rank_dynamic \<noteq> static_dim 2
   \<and> rank_dynamic \<noteq> rank_static [dynamic_dim, dynamic_dim]"
  by (simp add: pbc_defs parameter_def element_compatible_def dimension_compatible_def
      rank_def PartialShape_dynamic_def)

text \<open>
  Claim C2, amended: when every check of the inference rule passes and the first input
  is not a constant, construction succeeds and the output has element type f32 and the
  fully dynamic partial shape (rank unknown).
\<close>

theorem prior_box_not_constant_output_shape:
  assumes "as_Constant layer_shape = None"
    and "\<not> spec_check_fails layer_shape image_shape P ws hs"
  shows "\<exists>node. PriorBoxClustered_new layer_shape image_shape P ws hs clip sw sh off vars = Inr node
           \<and> output_type node = Some (f32, rank_dynamic)"
  using new_not_constant [OF assms] by (simp add: PartialShape_dynamic_def)

theorem prior_box_not_constant_output_shape_witness:
  "as_Constant (parameter i64 (rank_static [static_dim 2])) = None
   \<and> \<not> spec_check_fails (parameter i64 (rank_static [static_dim 2]))
          (parameter i64 (rank_static [static_dim 2])) 1 [0] [0]
   \<and> (\<exists>node. PriorBoxClustered_new (parameter i64 (rank_static [static_dim 2]))
          (parameter i64 (rank_static [static_dim 2])) 1 [0] [0] False 0 0 0 [] = Inr node
          \<and> output_type node = Some (f32, rank_dynamic))"
proof -
  have c: "as_Constant (parameter i64 (rank_static [static_dim 2])) = None"
    by (simp add: parameter_def)
  have f: "\<not> spec_check_fails (parameter i64 (rank_static [static_dim 2]))
          (parameter i64 (rank_static [static_dim 2])) 1 [0] [0]"
    by (simp add: spec_check_fails_def parameter_def element_compatible_def
        dimension_compatible_def rank_def)
  show ?thesis
    using prior_box_not_constant_output_shape [OF c f, of False 0 0 0 "[]"] c f by simp
qed

lemma new_first_failure:
  "(\<not> element_compatible (output_element_type l) i64
          \<longrightarrow> PriorBoxClustered_new l i P ws hs clip sw sh off vars = Inl (NodeValidationFailure
              [Text ''layer shape input must have element type i64, but has '',
               Type (output_element_type l)]))
   \<and> (element_compatible (output_element_type l) i64
          \<and> \<not> element_compatible (output_element_type i) i64
          \<longrightarrow> PriorBoxClustered_new l i P ws hs clip sw sh off vars = Inl (NodeValidationFailure
              [Text ''image shape input must have element type i64, but has '',
               Type (output_element_type i)]))
   \<and> (element_compatible (output_element_type l) i64
          \<and> element_compatible (output_element_type i) i64
          \<and> \<not> dimension_compatible (rank (output_partial_shape l))
                (rank (output_partial_shape i))
          \<longrightarrow> PriorBoxClustered_new l i P ws hs clip sw sh off vars = Inl (NodeValidationFailure
              [Text ''layer shape input rank '', Rank_of (rank (output_partial_shape l)),
               Text '' must match image shape input rank '',
               Rank_of (rank (output_partial_shape i))]))
   \<and> (element_compatible (output_element_type l) i64
          \<and> element_compatible (output_element_type i) i64
          \<and> dimension_compatible (rank (output_partial_shape l))
                (rank (output_partial_shape i))
          \<and> length ws \<noteq> unat P
          \<longrightarrow> PriorBoxClustered_new l i P ws hs clip sw sh off vars = Inl (NodeValidationFailure
              [Text ''Num_priors '', Size P,
               Text '' doesn't match size of widths vector '', Size (of_nat (length ws))]))
   \<and> (element_compatible (output_element_type l) i64
          \<and> element_compatible (output_element_type i) i64
          \<and> dimension_compatible (rank (output_partial_shape l))
                (rank (output_partial_shape i))
          \<and> length ws = unat P \<and> length hs \<noteq> unat P
          \<longrightarrow> PriorBoxClustered_new l i P ws hs clip sw sh off vars = Inl (NodeValidationFailure
              [Text ''Num_priors '', Size P,
               Text '' doesn't match size of heights vector '', Size (of_nat (length hs))]))
   \<and> (\<forall>c. element_compatible (output_element_type l) i64
          \<and> element_compatible (output_element_type i) i64
          \<and> dimension_compatible (rank (output_partial_shape l))
                (rank (output_partial_shape i))
          \<and> length ws = unat P \<and> length hs = unat P
          \<and> as_Constant l = Some c \<and> shape_size (get_shape c) \<noteq> 2
          \<longrightarrow> PriorBoxClustered_new l i P ws hs clip sw sh off vars = Inl (NodeValidationFailure
              [Text ''Layer shape must have rank 2'', Shape_of (get_shape c)]))"
  by (simp add: pbc_defs)

lemma copy_two_args:
  assumes "length (m_arguments node) = 2"
  shows "copy_with_new_args node [a0, a1] =
     PriorBoxClustered_new a0 a1 (m_num_priors node) (m_widths node) (m_heights node)
       (m_clip node) (m_step_widths node) (m_step_heights node) (m_offset node)
       (m_variances node)"
  using assms
  by (simp add: copy_with_new_args_def check_new_args_count_def NODE_VALIDATION_CHECK_def at_def)

text \<open>
  Claim C7: construction runs the inference rule at once, and it fails exactly when an
  input's element type is incompatible with i64, the inputs' ranks are incompatible, the
  length of the widths or heights attribute differs from \<open>num_priors\<close>, or the first
  input is a constant whose element count is not 2. The error is the validation error of
  the first of these checks that fails, in the order above: it names the offending input
  or attribute, what was expected, and the actual element type, ranks, sizes or shape.
\<close>

theorem construction_fails_exactly_when_check_fails:
  "PriorBoxClustered_new l i P ws hs clip sw sh off vars =
     validate_and_infer_types
       \<lparr>m_description = ''PriorBoxClustered'', m_arguments = [l, i], m_num_priors = P,
        m_widths = ws, m_heights = hs, m_clip = clip, m_step_widths = sw,
        m_step_heights = sh, m_offset = off, m_variances = vars, output_type = None,
        input_is_relevant_to_shape = []\<rparr>
   \<and> (isl (PriorBoxClustered_new l i P ws hs clip sw sh off vars)
        \<longleftrightarrow> spec_check_fails l i P ws hs)
   \<and> (\<forall>e. PriorBoxClustered_new l i P ws hs clip sw sh off vars = Inl e
        \<longrightarrow> e \<in> spec_check_errors l i P ws hs)
   \<and> (\<not> element_compatible (output_element_type l) i64
          \<longrightarrow> PriorBoxClustered_new l i P ws hs clip sw sh off vars = Inl (NodeValidationFailure
              [Text ''layer shape input must have element type i64, but has '',
               Type (output_element_type l)]))
   \<and> (element_compatible (output_element_type l) i64
          \<and> \<not> element_compatible (output_element_type i) i64
          \<longrightarrow> PriorBoxClustered_new l i P ws hs clip sw sh off vars = Inl (NodeValidationFailure
              [Text ''image shape input must have element type i64, but has '',
               Type (output_element_type i)]))
   \<and> (element_compatible (output_element_type l) i64
          \<and> element_compatible (output_element_type i) i64
          \<and> \<not> dimension_compatible (rank (output_partial_shape l))
                (rank (output_partial_shape i))
          \<longrightarrow> PriorBoxClustered_new l i P ws hs clip sw sh off vars = Inl (NodeValidationFailure
              [Text ''layer shape input rank '', Rank_of (rank (output_partial_shape l)),
               Text '' must match image shape input rank '',
               Rank_of (rank (output_partial_shape i))]))
   \<and> (element_compatible (output_element_type l) i64
          \<and> element_compatible (output_element_type i) i64
          \<and> dimension_compatible (rank (output_partial_shape l))
                (rank (output_partial_shape i))
          \<and> length ws \<noteq> unat P
          \<longrightarrow> PriorBoxClustered_new l i P ws hs clip sw sh off vars = Inl (NodeValidationFailure
              [Text ''Num_priors '', Size P,
               Text '' doesn't match size of widths vector '', Size (of_nat (length ws))]))
   \<and> (element_compatible (output_element_type l) i64
          \<and> element_compatible (output_element_type i) i64
          \<and> dimension_compatible (rank (output_partial_shape l))
                (rank (output_partial_shape i))
          \<and> length ws = unat P \<and> length hs \<noteq> unat P
          \<longrightarrow> PriorBoxClustered_new l i P ws hs clip sw sh off vars = Inl (NodeValidationFailure
              [Text ''Num_priors '', Size P,
               Text '' doesn't match size of heights vector '', Size (of_nat (length hs))]))
   \<and> (\<forall>c. element_compatible (output_element_type l) i64
          \<and> element_compatible (output_element_type i) i64
          \<and> dimension_compatible (rank (output_partial_shape l))
                (rank (output_partial_shape i))
          \<and> length ws = unat P \<and> length hs = unat P
          \<and> as_Constant l = Some c \<and> shape_size (get_shape c) \<noteq> 2
          \<longrightarrow> PriorBoxClustered_new l i P ws hs clip sw sh off vars = Inl (NodeValidationFailure
              [Text ''Layer shape must have rank 2'', Shape_of (get_shape c)]))"
  using new_fails_iff [of l i P ws hs clip sw sh off vars]
    new_error [of l i P ws hs clip sw sh off vars]
    new_first_failure [of l i P ws hs clip sw sh off vars]
  by (simp add: PriorBoxClustered_new_def)

theorem construction_fails_exactly_when_check_fails_witness:
  "\<not> element_compatible (output_element_type (parameter f32 (rank_static [static_dim 2]))) i64
   \<and> spec_check_fails (parameter f32 (rank_static [static_dim 2]))
      (parameter i64 (rank_static [static_dim 2])) 3 [0, 0] [0, 0, 0]
   \<and> PriorBoxClustered_new (parameter f32 (rank_static [static_dim 2]))
      (parameter i64 (rank_static [static_dim 2])) 3 [0, 0] [0, 0, 0] False 0 0 0 []
    = Inl (NodeValidationFailure
        [Text ''layer shape input must have element type i64, but has '', Type f32])"
proof -
  have t: "output_element_type (parameter f32 (rank_static [static_dim 2])) = f32"
    by (simp add: parameter_def)
  have n: "\<not> element_compatible (output_element_type (parameter f32 (rank_static [static_dim 2]))) i64"
    by (simp add: t element_compatible_def)
  have f: "spec_check_fails (parameter f32 (rank_static [static_dim 2]))
      (parameter i64 (rank_static [static_dim 2])) 3 [0, 0] [0, 0, 0]"
    using n by (simp add: spec_check_fails_def)
  have "PriorBoxClustered_new (parameter f32 (rank_static [static_dim 2]))
      (parameter i64 (rank_static [static_dim 2])) 3 [0, 0] [0, 0, 0] False 0 0 0 []
    = Inl (NodeValidationFailure
        [Text ''layer shape input must have element type i64, but has '',
         Type (output_element_type (parameter f32 (rank_static [static_dim 2])))])"
    using construction_fails_exactly_when_check_fails
      [of "parameter f32 (rank_static [static_dim 2])" "parameter i64 (rank_static [static_dim 2])"
          3 "[0, 0]" "[0, 0, 0]" False 0 0 0 "[]"] n
    by blast
  then have e: "PriorBoxClustered_new (parameter f32 (rank_static [static_dim 2]))
      (parameter i64 (rank_static [static_dim 2])) 3 [0, 0] [0, 0, 0] False 0 0 0 []
    = Inl (NodeValidationFailure
        [Text ''layer shape input must have element type i64, but has '', Type f32])"
    by (simp only: t)
  show ?thesis using n f e by (intro conjI)
qed

text \<open>
  Claim C6 as stated fails in its second half: a replacement list of exactly two
  arguments does not always produce a node. The constructor runs the inference rule on
  the new arguments, and a first argument of element type f32 is rejected.
\<close>

theorem copy_with_two_args_produces_node_counterexample:
  "PriorBoxClustered_new (constant_i64 [2] [3, 4]) (constant_i64 [2] [300, 300]) 1 [0] [0]
       False 0 0 0 []
     = Inr \<lparr>m_description = ''PriorBoxClustered'',
            m_arguments = [constant_i64 [2] [3, 4], constant_i64 [2] [300, 300]],
            m_num_priors = 1, m_widths = [0], m_heights = [0], m_clip = False,
            m_step_widths = 0, m_step_heights = 0, m_offset = 0, m_variances = [],
            output_type = Some (f32, rank_static [static_dim 2, static_dim 48]),
            input_is_relevant_to_shape = [0]\<rparr>
   \<and> copy_with_new_args
       \<lparr>m_description = ''PriorBoxClustered'',
        m_arguments = [constant_i64 [2] [3, 4], constant_i64 [2] [300, 300]],
        m_num_priors = 1, m_widths = [0], m_heights = [0], m_clip = False,
        m_step_widths = 0, m_step_heights = 0, m_offset = 0, m_variances = [],
        output_type = Some (f32, rank_static [static_dim 2, static_dim 48]),
        input_is_relevant_to_shape = [0]\<rparr>
       [parameter f32 (rank_static [static_dim 2]), constant_i64 [2] [300, 300]]
     = Inl (NodeValidationFailure
         [Text ''layer shape input must have element type i64, but has '', Type f32])"
  by (simp add: copy_with_new_args_def check_new_args_count_def pbc_defs parameter_def
      constant_i64_def element_compatible_def dimension_compatible_def rank_def
      PartialShape_of_Shape_def shape_size_def)

text \<open>
  Claim C6, amended: for a node of arity 2, a replacement list of any other length fails
  with the arity-mismatch validation error and no node is built; a list of exactly two
  arguments is passed to the constructor, which fails with the validation error of the
  first of its checks that the new arguments do not pass, and otherwise produces a node
  of the same kind and attributes bound to the new arguments.
\<close>

theorem copy_with_new_args_arity:
  assumes "length (m_arguments node) = 2"
  shows "(length new_args \<noteq> 2 \<longrightarrow>
            copy_with_new_args node new_args =
              Inl (NodeValidationFailure
                [Text ''expected argument count '', Size 2,
                 Text '', actual argument count '', Size (of_nat (length new_args))]))
       \<and> (\<forall>a0 a1. new_args = [a0, a1] \<longrightarrow>
            (if spec_check_fails a0 a1 (m_num_priors node) (m_widths node) (m_heights node)
             then \<exists>e \<in> spec_check_errors a0 a1 (m_num_priors node) (m_widths node) (m_heights node).
                    copy_with_new_args node new_args = Inl e
             else \<exists>node'. copy_with_new_args node new_args = Inr node'
                    \<and> m_description node' = ''PriorBoxClustered''
                    \<and> m_arguments node' = [a0, a1]
                    \<and> m_num_priors node' = m_num_priors node
                    \<and> m_widths node' = m_widths node
                    \<and> m_heights node' = m_heights node
                    \<and> m_clip node' = m_clip node
                    \<and> m_step_widths node' = m_step_widths node
                    \<and> m_step_heights node' = m_step_heights node
                    \<and> m_offset node' = m_offset node
                    \<and> m_variances node' = m_variances node)
             \<and> (\<not> element_compatible (output_element_type a0) i64
          \<longrightarrow> copy_with_new_args node new_args = Inl (NodeValidationFailure
              [Text ''layer shape input must have element type i64, but has '',
               Type (output_element_type a0)]))
             \<and> (element_compatible (output_element_type a0) i64
          \<and> \<not> element_compatible (output_element_type a1) i64
          \<longrightarrow> copy_with_new_args node new_args = Inl (NodeValidationFailure
              [Text ''image shape input must have element type i64, but has '',
               Type (output_element_type a1)]))
             \<and> (element_compatible (output_element_type a0) i64
          \<and> element_compatible (output_element_type a1) i64
          \<and> \<not> dimension_compatible (rank (output_partial_shape a0))
                (rank (output_partial_shape a1))
          \<longrightarrow> copy_with_new_args node new_args = Inl (NodeValidationFailure
              [Text ''layer shape input rank '', Rank_of (rank (output_partial_shape a0)),
               Text '' must match image shape input rank '',
               Rank_of (rank (output_partial_shape a1))]))
             \<and> (element_compatible (output_element_type a0) i64
          \<and> element_compatible (output_element_type a1) i64
          \<and> dimension_compatible (rank (output_partial_shape a0))
                (rank (output_partial_shape a1))
          \<and> length (m_widths node) \<noteq> unat (m_num_priors node)
          \<longrightarrow> copy_with_new_args node new_args = Inl (NodeValidationFailure
              [Text ''Num_priors '', Size (m_num_priors node),
               Text '' doesn't match size of widths vector '', Size (of_nat (length (m_widths node)))]))
             \<and> (element_compatible (output_element_type a0) i64
          \<and> element_compatible (output_element_type a1) i64
          \<and> dimension_compatible (rank (output_partial_shape a0))
                (rank (output_partial_shape a1))
          \<and> length (m_widths node) = unat (m_num_priors node) \<and> length (m_heights node) \<noteq> unat (m_num_priors node)
          \<longrightarrow> copy_with_new_args node new_args = Inl (NodeValidationFailure
              [Text ''Num_priors '', Size (m_num_priors node),
               Text '' doesn't match size of heights vector '', Size (of_nat (length (m_heights node)))]))
             \<and> (\<forall>c. element_compatible (output_element_type a0) i64
          \<and> element_compatible (output_element_type a1) i64
          \<and> dimension_compatible (rank (output_partial_shape a0))
                (rank (output_partial_shape a1))
          \<and> length (m_widths node) = unat (m_num_priors node) \<and> length (m_heights node) = unat (m_num_priors node)
          \<and> as_Constant a0 = Some c \<and> shape_size (get_shape c) \<noteq> 2
          \<longrightarrow> copy_with_new_args node new_args = Inl (NodeValidationFailure
              [Text ''Layer shape must have rank 2'', Shape_of (get_shape c)])))"
proof -
  have A: "(length new_args \<noteq> 2 \<longrightarrow>
            copy_with_new_args node new_args =
              Inl (NodeValidationFailure
                [Text ''expected argument count '', Size 2,
                 Text '', actual argument count '', Size (of_nat (length new_args))]))"
    using assms
    by (simp add: copy_with_new_args_def check_new_args_count_def NODE_VALIDATION_CHECK_def)
  have B: "(if spec_check_fails a0 a1 (m_num_priors node) (m_widths node) (m_heights node)
             then \<exists>e \<in> spec_check_errors a0 a1 (m_num_priors node) (m_widths node) (m_heights node).
                    copy_with_new_args node new_args = Inl e
             else \<exists>node'. copy_with_new_args node new_args = Inr node'
                    \<and> m_description node' = ''PriorBoxClustered''
                    \<and> m_arguments node' = [a0, a1]
                    \<and> m_num_priors node' = m_num_priors node
                    \<and> m_widths node' = m_widths node
                    \<and> m_heights node' = m_heights node
                    \<and> m_clip node' = m_clip node
                    \<and> m_step_widths node' = m_step_widths node
                    \<and> m_step_heights node' = m_step_heights node
                    \<and> m_offset node' = m_offset node
                    \<and> m_variances node' = m_variances node)"
    if n: "new_args = [a0, a1]" for a0 a1
  proof -
    let ?P = "m_num_priors node" and ?ws = "m_widths node" and ?hs = "m_heights node"
    let ?new = "PriorBoxClustered_new a0 a1 ?P ?ws ?hs (m_clip node) (m_step_widths node)
          (m_step_heights node) (m_offset node) (m_variances node)"
    have c: "copy_with_new_args node new_args = ?new"
      unfolding n using assms by (rule copy_two_args)
    show ?thesis
    proof (cases "spec_check_fails a0 a1 ?P ?ws ?hs")
      case True
      then have "isl ?new" by (simp add: new_fails_iff)
      then obtain e where e: "?new = Inl e" by (cases ?new) auto
      then have "e \<in> spec_check_errors a0 a1 ?P ?ws ?hs" by (rule new_error)
      with e c True show ?thesis by auto
    next
      case False
      show ?thesis
      proof (cases "as_Constant a0")
        case None
        show ?thesis using False c new_not_constant [OF None False] by simp
      next
        case (Some k)
        show ?thesis using False c new_constant [OF Some False] by simp
      qed
    qed
  qed
  have C: "(\<not> element_compatible (output_element_type a0) i64
          \<longrightarrow> copy_with_new_args node new_args = Inl (NodeValidationFailure
              [Text ''layer shape input must have element type i64, but has '',
               Type (output_element_type a0)]))
             \<and> (element_compatible (output_element_type a0) i64
          \<and> \<not> element_compatible (output_element_type a1) i64
          \<longrightarrow> copy_with_new_args node new_args = Inl (NodeValidationFailure
              [Text ''image shape input must have element type i64, but has '',
               Type (output_element_type a1)]))
             \<and> (element_compatible (output_element_type a0) i64
          \<and> element_compatible (output_element_type a1) i64
          \<and> \<not> dimension_compatible (rank (output_partial_shape a0))
                (rank (output_partial_shape a1))
          \<longrightarrow> copy_with_new_args node new_args = Inl (NodeValidationFailure
              [Text ''layer shape input rank '', Rank_of (rank (output_partial_shape a0)),
               Text '' must match image shape input rank '',
               Rank_of (rank (output_partial_shape a1))]))
             \<and> (element_compatible (output_element_type a0) i64
          \<and> element_compatible (output_element_type a1) i64
          \<and> dimension_compatible (rank (output_partial_shape a0))
                (rank (output_partial_shape a1))
          \<and> length (m_widths node) \<noteq> unat (m_num_priors node)
          \<longrightarrow> copy_with_new_args node new_args = Inl (NodeValidationFailure
              [Text ''Num_priors '', Size (m_num_priors node),
               Text '' doesn't match size of widths vector '', Size (of_nat (length (m_widths node)))]))
             \<and> (element_compatible (output_element_type a0) i64
          \<and> element_compatible (output_element_type a1) i64
          \<and> dimension_compatible (rank (output_partial_shape a0))
                (rank (output_partial_shape a1))
          \<and> length (m_widths node) = unat (m_num_priors node) \<and> length (m_heights node) \<noteq> unat (m_num_priors node)
          \<longrightarrow> copy_with_new_args node new_args = Inl (NodeValidationFailure
              [Text ''Num_priors '', Size (m_num_priors node),
               Text '' doesn't match size of heights vector '', Size (of_nat (length (m_heights node)))]))
             \<and> (\<forall>c. element_compatible (output_element_type a0) i64
          \<and> element_compatible (output_element_type a1) i64
          \<and> dimension_compatible (rank (output_partial_shape a0))
                (rank (output_partial_shape a1))
          \<and> length (m_widths node) = unat (m_num_priors node) \<and> length (m_heights node) = unat (m_num_priors node)
          \<and> as_Constant a0 = Some c \<and> shape_size (get_shape c) \<noteq> 2
          \<longrightarrow> copy_with_new_args node new_args = Inl (NodeValidationFailure
              [Text ''Layer shape must have rank 2'', Shape_of (get_shape c)]))"
    if n: "new_args = [a0, a1]" for a0 a1
    unfolding n copy_two_args [OF assms]
    by (rule new_first_failure)
  show ?thesis using A B C by blast
qed

theorem copy_with_new_args_arity_witness:
  "length (m_arguments
      \<lparr>m_description = ''PriorBoxClustered'',
       m_arguments = [constant_i64 [2] [3, 4], constant_i64 [2] [300, 300]],
       m_num_priors = 1, m_widths = [0], m_heights = [0], m_clip = False,
       m_step_widths = 0, m_step_heights = 0, m_offset = 0, m_variances = [],
       output_type = Some (f32, rank_static [static_dim 2, static_dim 48]),
       input_is_relevant_to_shape = [0]\<rparr>) = 2
   \<and> copy_with_new_args
      \<lparr>m_description = ''PriorBoxClustered'',
       m_arguments = [constant_i64 [2] [3, 4], constant_i64 [2] [300, 300]],
       m_num_priors = 1, m_widths = [0], m_heights = [0], m_clip = False,
       m_step_widths = 0, m_step_heights = 0, m_offset = 0, m_variances = [],
       output_type = Some (f32, rank_static [static_dim 2, static_dim 48]),
       input_is_relevant_to_shape = [0]\<rparr>
      [constant_i64 [2] [3, 4]]
     = Inl (NodeValidationFailure
         [Text ''expected argument count '', Size 2, Text '', actual argument count '', Size 1])
   \<and> \<not> spec_check_fails (constant_i64 [2] [5, 6]) (parameter i64 rank_dynamic) 1 [0] [0]
   \<and> (\<exists>node'. copy_with_new_args
      \<lparr>m_description = ''PriorBoxClustered'',
       m_arguments = [constant_i64 [2] [3, 4], constant_i64 [2] [300, 300]],
       m_num_priors = 1, m_widths = [0], m_heights = [0], m_clip = False,
       m_step_widths = 0, m_step_heights = 0, m_offset = 0, m_variances = [],
       output_type = Some (f32, rank_static [static_dim 2, static_dim 48]),
       input_is_relevant_to_shape = [0]\<rparr>
      [constant_i64 [2] [5, 6], parameter i64 rank_dynamic] = Inr node'
      \<and> m_description node' = ''PriorBoxClustered''
      \<and> m_arguments node' = [constant_i64 [2] [5, 6], parameter i64 rank_dynamic]
      \<and> m_num_priors node' = 1 \<and> m_widths node' = [0] \<and> m_heights node' = [0])
   \<and> copy_with_new_args
      \<lparr>m_description = ''PriorBoxClustered'',
       m_arguments = [constant_i64 [2] [3, 4], constant_i64 [2] [300, 300]],
       m_num_priors = 1, m_widths = [0], m_heights = [0], m_clip = False,
       m_step_widths = 0, m_step_heights = 0, m_offset = 0, m_variances = [],
       output_type = Some (f32, rank_static [static_dim 2, static_dim 48]),
       input_is_relevant_to_shape = [0]\<rparr>
      [parameter f32 rank_dynamic, parameter i64 rank_dynamic]
     = Inl (NodeValidationFailure
         [Text ''layer shape input must have element type i64, but has '', Type f32])"
proof -
  let ?node = "\<lparr>m_description = ''PriorBoxClustered'',
       m_arguments = [constant_i64 [2] [3, 4], constant_i64 [2] [300, 300]],
       m_num_priors = 1, m_widths = [0], m_heights = [0], m_clip = False,
       m_step_widths = 0, m_step_heights = 0, m_offset = 0, m_variances = [],
       output_type = Some (f32, rank_static [static_dim 2, static_dim 48]),
       input_is_relevant_to_shape = [0]\<rparr>"
  have l: "length (m_arguments ?node) = 2" by simp
  have f: "\<not> spec_check_fails (constant_i64 [2] [5, 6]) (parameter i64 rank_dynamic) 1 [0] [0]"
    by (simp add: spec_check_fails_def constant_i64_def parameter_def element_compatible_def
        dimension_compatible_def rank_def PartialShape_of_Shape_def shape_size_def)
  have t: "output_element_type (parameter f32 rank_dynamic) = f32"
    by (simp add: parameter_def)
  have n: "\<not> element_compatible (output_element_type (parameter f32 rank_dynamic)) i64"
    by (simp add: t element_compatible_def)
  have a: "copy_with_new_args ?node [constant_i64 [2] [3, 4]]
     = Inl (NodeValidationFailure
         [Text ''expected argument count '', Size 2, Text '', actual argument count '', Size 1])"
    using copy_with_new_args_arity [OF l, of "[constant_i64 [2] [3, 4]]"] by simp
  have b: "\<exists>node'. copy_with_new_args ?node
        [constant_i64 [2] [5, 6], parameter i64 rank_dynamic] = Inr node'
      \<and> m_description node' = ''PriorBoxClustered''
      \<and> m_arguments node' = [constant_i64 [2] [5, 6], parameter i64 rank_dynamic]
      \<and> m_num_priors node' = 1 \<and> m_widths node' = [0] \<and> m_heights node' = [0]"
    using copy_with_new_args_arity
      [OF l, of "[constant_i64 [2] [5, 6], parameter i64 rank_dynamic]"] f
    by auto
  have "copy_with_new_args ?node [parameter f32 rank_dynamic, parameter i64 rank_dynamic]
     = Inl (NodeValidationFailure
         [Text ''layer shape input must have element type i64, but has '',
          Type (output_element_type (parameter f32 rank_dynamic))])"
    using copy_with_new_args_arity
      [OF l, of "[parameter f32 rank_dynamic, parameter i64 rank_dynamic]"] n
    by blast
  then have c: "copy_with_new_args ?node [parameter f32 rank_dynamic, parameter i64 rank_dynamic]
     = Inl (NodeValidationFailure
         [Text ''layer shape input must have element type i64, but has '', Type f32])"
    by (simp only: t)
  show ?thesis using l f a b c by (intro conjI)
qed

section \<open>Properties of the height analysis\<close>

lemmas analysis_defs = compute_height_maps_def seed_height_maps_def absorb_target_inputs_def
  absorb_def HeightMap_initials_def HeightMap_default_def subscript_def std_max_def

lemma seed_fold:
  "fold (\<lambda>node hm.
             if description (nodes node) = ''Result''
             then hm(node := HeightMap_initials [node])
             else hm(node := HeightMap_default)) ops h0 n
   = (if n \<in> set ops
      then (if description (nodes n) = ''Result'' then [(n, 0)] else [])
      else h0 n)"
  by (induction ops arbitrary: h0) (auto simp add: HeightMap_initials_def HeightMap_default_def)

lemma seed_height_maps_apply:
  "seed_height_maps nodes ops n
   = (if n \<in> set ops \<and> description (nodes n) = ''Result'' then [(n, 0)] else [])"
  by (simp add: seed_height_maps_def seed_fold HeightMap_default_def)

lemma path_order_unique:
  assumes "is_topological_order path_graph ops order" and "set ops = {1, 2, 3, 4}"
  shows "order = [1, 2, 3, 4]"
proof -
  have d: "distinct order" and s: "set order = {1, 2, 3, 4}"
    and a: "arguments_first path_graph [] order"
    using assms by (simp_all add: is_topological_order_def)
  have "card (set order) = 4" using s by simp
  then have "length order = 4" using d by (simp add: distinct_card)
  then obtain w x y z where o: "order = [w, x, y, z]"
    by (auto simp add: numeral_eq_Suc length_Suc_conv)
  have w: "w = 1" using a s o by (auto simp add: path_graph_def unary_node_def split: if_splits)
  have x: "x = 2" using a s o d w by (auto simp add: path_graph_def unary_node_def split: if_splits)
  have y: "y = 3" using a s o d w x by (auto simp add: path_graph_def unary_node_def split: if_splits)
  have z: "z = 4" using s o d w x y by auto
  show ?thesis using o w x y z by simp
qed

lemma path_seed:
  assumes "set ops = {1, 2, 3, 4}"
  shows "seed_height_maps path_graph ops = (\<lambda>n. if n = 4 then [(4, 0)] else [])"
  using assms by (auto simp add: seed_height_maps_apply path_graph_def unary_node_def fun_eq_iff)

lemma path_heights:
  assumes "set ops = {1, 2, 3, 4}"
  shows "compute_height_maps path_graph ops [1, 2, 3, 4] =
          (\<lambda>n. if n = 1 then [(4, 3)] else if n = 2 then [(4, 2)] else if n = 3 then [(4, 1)]
                else if n = 4 then [(4, 0)] else [])"
  by (simp add: compute_height_maps_def path_seed [OF assms] absorb_target_inputs_def absorb_def
      subscript_def std_max_def path_graph_def unary_node_def fun_eq_iff)

text \<open>
  Claim C5: on the path \<open>A \<rightarrow> B \<rightarrow> C \<rightarrow> D\<close> (addresses 1 to 4) with the only sink
  \<open>D\<close>, for every order in which \<^verbatim>\<open>get_ops\<close> lists the four nodes and every
  topological order of them, the recorded heights with respect to \<open>D\<close> are 3 for \<open>A\<close>,
  2 for \<open>B\<close>, 1 for \<open>C\<close> and 0 for \<open>D\<close>, and the jump distance from \<open>A\<close> to \<open>B\<close>
  is 1.
\<close>

theorem path_graph_heights_and_jump:
  assumes "set ops = {1, 2, 3, 4}" and "is_topological_order path_graph ops order"
  shows "compute_height_maps path_graph ops order 1 = [(4, 3)]
       \<and> compute_height_maps path_graph ops order 2 = [(4, 2)]
       \<and> compute_height_maps path_graph ops order 3 = [(4, 1)]
       \<and> compute_height_maps path_graph ops order 4 = [(4, 0)]
       \<and> max_jump_to (compute_height_maps path_graph ops order 1)
                      (compute_height_maps path_graph ops order 2) = 1"
proof -
  have "order = [1, 2, 3, 4]" using assms(2) assms(1) by (rule path_order_unique)
  then have H: "compute_height_maps path_graph ops order =
          (\<lambda>n. if n = 1 then [(4, 3)] else if n = 2 then [(4, 2)] else if n = 3 then [(4, 1)]
                else if n = 4 then [(4, 0)] else [])"
    using path_heights [OF assms(1)] by (simp only:)
  have j: "max_jump_to [(4, 3)] [(4, 2)] = 1"
    by (simp add: max_jump_to_def std_max_def std_abs_def)
  show ?thesis by (simp add: H j)
qed

theorem path_graph_heights_and_jump_witness:
  "set [4, 3, 2, 1] = {1, 2, 3, 4 :: node_ptr}
   \<and> is_topological_order path_graph [4, 3, 2, 1] [1, 2, 3, 4]
   \<and> compute_height_maps path_graph [4, 3, 2, 1] [1, 2, 3, 4] 1 = [(4, 3)]
   \<and> max_jump_to (compute_height_maps path_graph [4, 3, 2, 1] [1, 2, 3, 4] 1)
                  (compute_height_maps path_graph [4, 3, 2, 1] [1, 2, 3, 4] 2) = 1"
proof -
  have s: "set [4, 3, 2, 1] = {1, 2, 3, 4 :: node_ptr}" by auto
  have t: "is_topological_order path_graph [4, 3, 2, 1] [1, 2, 3, 4]"
    by (auto simp add: is_topological_order_def path_graph_def unary_node_def)
  show ?thesis using path_graph_heights_and_jump [OF s t] s t by blast
qed

lemma fold_concat_general: "fold f (concat xss) s = fold (fold f) xss s"
  by (induction xss arbitrary: s) simp_all

lemma absorb_target_inputs_users:
  "absorb_target_inputs nodes node hm =
     fold (\<lambda>target_node hm. hm(node := absorb (hm node) (hm target_node))) (users nodes node) hm"
  by (simp add: absorb_target_inputs_def users_def fold_concat_general fold_map comp_def)

lemma distinct_absorb:
  "distinct (map fst m) \<Longrightarrow> distinct (map fst (absorb m other))"
  unfolding absorb_def
  by (induction other arbitrary: m) (auto simp add: AList.distinct_update)

lemma spec_merge_step:
  assumes "map_of other k = None"
  shows "spec_merge ((map_of m)(k \<mapsto> std_max (subscript m k) (v + 1))) (map_of other)
       = spec_merge (map_of m) ((map_of other)(k \<mapsto> v))"
  using assms by (auto simp add: spec_merge_def subscript_def fun_eq_iff split: option.splits)

lemma map_of_absorb:
  assumes "distinct (map fst other)"
  shows "map_of (absorb m other) = spec_merge (map_of m) (map_of other)"
  using assms
proof (induction other arbitrary: m)
  case Nil
  show ?case by (simp add: absorb_def spec_merge_def)
next
  case (Cons p other)
  obtain k v where p: "p = (k, v)" by (cases p)
  from Cons.prems p have n: "map_of other k = None" and d: "distinct (map fst other)"
    by (auto simp add: map_of_eq_None_iff)
  have "absorb m (p # other) = absorb (AList.update k (std_max (subscript m k) (v + 1)) m) other"
    by (simp add: absorb_def p)
  then have "map_of (absorb m (p # other))
      = spec_merge ((map_of m)(k \<mapsto> std_max (subscript m k) (v + 1))) (map_of other)"
    using Cons.IH [OF d, of "AList.update k (std_max (subscript m k) (v + 1)) m"]
    by (simp only: update_conv')
  also have "\<dots> = spec_merge (map_of m) ((map_of other)(k \<mapsto> v))"
    using n by (rule spec_merge_step)
  finally show ?case by (simp only: p map_of.simps fst_conv snd_conv)
qed

lemma refines_step:
  assumes "refines hm H"
  shows "refines (hm(node := absorb (hm node) (hm t))) (H(node := spec_merge (H node) (H t)))"
  using assms by (simp add: refines_def distinct_absorb map_of_absorb)

lemma refines_users:
  assumes "refines hm H"
  shows "refines (fold (\<lambda>t hm. hm(node := absorb (hm node) (hm t))) ts hm)
                 (fold (\<lambda>user H. H(node := spec_merge (H node) (H user))) ts H)"
  using assms by (induction ts arbitrary: hm H) (simp_all add: refines_step)

lemma refines_nodes:
  assumes "refines hm H"
  shows "refines (fold (absorb_target_inputs nodes) ns hm)
                 (fold (\<lambda>node H. fold (\<lambda>user H. H(node := spec_merge (H node) (H user)))
                         (users nodes node) H) ns H)"
  using assms
  by (induction ns arbitrary: hm H) (simp_all add: absorb_target_inputs_users refines_users)

lemma refines_seed:
  "refines (seed_height_maps nodes ops)
     (\<lambda>n. if n \<in> set ops \<and> is_Result nodes n then [n \<mapsto> 0] else Map.empty)"
  by (simp add: refines_def seed_height_maps_apply is_Result_def)

lemma refines_compute:
  "refines (compute_height_maps nodes ops order) (spec_heights (is_Result nodes) nodes ops order)"
  unfolding compute_height_maps_def spec_heights_def
  by (rule refines_nodes [OF refines_seed])

text \<open>
  Claim C3, amended: the analysis seeds a height of 0 at every node of kind
  \<open>Result\<close> among the nodes of the function, and at no other node; then, in reverse
  topological order, for each node and each of its immediate users, it records for every
  sink in the user's height map the maximum of the node's current height for that sink
  and the user's height plus 1.
\<close>

theorem height_analysis_refines_spec:
  "map_of (compute_height_maps nodes ops order n) = spec_heights (is_Result nodes) nodes ops order n"
  using refines_compute [of nodes ops order] by (simp add: refines_def)

text \<open>
  Claim C3 as stated fails in its seeding: a node without users that is not a
  \<open>Result\<close>, here the unused parameter at address 3, gets no height, where the claim
  seeds 0.
\<close>

theorem height_analysis_seed_counterexample:
  "map_of (compute_height_maps unused_parameter_graph [1, 2, 3] [1, 3, 2] 3) 3 = None
   \<and> spec_heights (spec_is_sink unused_parameter_graph) unused_parameter_graph [1, 2, 3] [1, 3, 2] 3 3
       = Some 0"
  by (simp add: analysis_defs spec_heights_def spec_is_sink_def users_def spec_merge_def
      unused_parameter_graph_def unary_node_def)

lemma sint_succ64:
  assumes "0 \<le> sint (v :: 64 word)" and "sint v + 1 < 2 ^ 63"
  shows "sint (v + 1) = sint v + 1"
proof -
  have "- (2 ^ 63) \<le> sint v + 1" using assms(1) by simp
  then have "signed_take_bit 63 (sint v + 1) = sint v + 1"
    using assms(2) by (simp add: signed_take_bit_int_eq_self)
  then show ?thesis by (simp add: sint_word_ariths)
qed

lemma sint_diff64:
  assumes "0 \<le> sint (a :: 64 word)" and "0 \<le> sint (b :: 64 word)"
  shows "sint (a - b) = sint a - sint b"
proof -
  have "- (2 ^ 63) \<le> sint a - sint b" "sint a - sint b < 2 ^ 63"
    using assms sint_bounds64 [of a] sint_bounds64 [of b] by simp_all
  then have "signed_take_bit 63 (sint a - sint b) = sint a - sint b"
    by (simp add: signed_take_bit_int_eq_self)
  then show ?thesis by (simp add: sint_word_ariths)
qed

lemma sint_std_abs_diff:
  assumes "0 \<le> sint (a :: 64 word)" and "0 \<le> sint (b :: 64 word)"
  shows "sint (std_abs (a - b)) = \<bar>sint a - sint b\<bar>"
proof -
  have d: "sint (a - b) = sint a - sint b" using assms by (rule sint_diff64)
  have "sint a - sint b \<noteq> - (2 ^ 63)" using assms sint_bounds64 [of b] by simp
  then have "sint (- (a - b)) = - (sint a - sint b)" using d sint_uminus64 [of "a - b"] by simp
  then show ?thesis using d by (simp add: std_abs_def)
qed

lemma bounded_step:
  assumes "bounded_heights c hm" and "int c + 1 < 2 ^ 63"
  shows "bounded_heights (Suc c) (hm(node := absorb (hm node) (hm t)))"
  unfolding bounded_heights_def
proof (intro allI conjI impI)
  fix n
  show "distinct (map fst ((hm(node := absorb (hm node) (hm t))) n))"
    using assms(1) by (simp add: bounded_heights_def distinct_absorb)
next
  fix n k v
  assume s: "map_of ((hm(node := absorb (hm node) (hm t))) n) k = Some v"
  have old: "\<And>n k v. map_of (hm n) k = Some v \<Longrightarrow> 0 \<le> sint v \<and> sint v \<le> int c"
    using assms(1) by (simp add: bounded_heights_def)
  have dt: "distinct (map fst (hm t))" using assms(1) by (simp add: bounded_heights_def)
  show "0 \<le> sint v" "sint v \<le> int (Suc c)"
  proof -
    have "0 \<le> sint v \<and> sint v \<le> int (Suc c)"
    proof (cases "n = node")
      case False
      then show ?thesis using s old [of n k v] by simp
    next
      case True
      then have m: "spec_merge (map_of (hm node)) (map_of (hm t)) k = Some v"
        using s by (simp add: map_of_absorb [OF dt])
      show ?thesis
      proof (cases "map_of (hm t) k")
        case None
        then show ?thesis using m old [of node k v] by (simp add: spec_merge_def)
      next
        case (Some u)
        have u: "0 \<le> sint u" "sint u \<le> int c" using old [OF Some] by simp_all
        then have u1: "sint (u + 1) = sint u + 1" using assms(2) by (simp add: sint_succ64)
        show ?thesis
        proof (cases "map_of (hm node) k")
          case None
          then show ?thesis using m Some u u1 by (auto simp add: spec_merge_def sint_std_max)
        next
          case (Some h)
          then show ?thesis using m \<open>map_of (hm t) k = Some u\<close> u u1 old [OF Some]
            by (auto simp add: spec_merge_def sint_std_max)
        qed
      qed
    qed
    then show "0 \<le> sint v" "sint v \<le> int (Suc c)" by simp_all
  qed
qed

lemma bounded_users:
  assumes "bounded_heights c hm" and "int c + int (length ts) < 2 ^ 63"
  shows "bounded_heights (c + length ts)
           (fold (\<lambda>t hm. hm(node := absorb (hm node) (hm t))) ts hm)"
  using assms
proof (induction ts arbitrary: c hm)
  case Nil
  then show ?case by simp
next
  case (Cons t ts)
  have c1: "int c + 1 < 2 ^ 63" using Cons.prems(2) by simp
  have c2: "int (Suc c) + int (length ts) < 2 ^ 63" using Cons.prems(2) by simp
  have "bounded_heights (Suc c) (hm(node := absorb (hm node) (hm t)))"
    by (rule bounded_step [OF Cons.prems(1) c1])
  then have "bounded_heights (Suc c + length ts)
           (fold (\<lambda>t hm. hm(node := absorb (hm node) (hm t))) ts (hm(node := absorb (hm node) (hm t))))"
    using c2 by (rule Cons.IH)
  moreover have "c + length (t # ts) = Suc c + length ts" by simp
  ultimately show ?case by (simp only: fold_Cons o_apply)
qed

lemma bounded_nodes:
  assumes "bounded_heights c hm" and "int c + int (absorb_count nodes ns) < 2 ^ 63"
  shows "bounded_heights (c + absorb_count nodes ns) (fold (absorb_target_inputs nodes) ns hm)"
  using assms
proof (induction ns arbitrary: c hm)
  case Nil
  then show ?case by (simp add: absorb_count_def)
next
  case (Cons n ns)
  have a: "absorb_count nodes (n # ns) = length (users nodes n) + absorb_count nodes ns"
    by (simp add: absorb_count_def)
  have c1: "int c + int (length (users nodes n)) < 2 ^ 63" using Cons.prems(2) a by simp
  have c2: "int (c + length (users nodes n)) + int (absorb_count nodes ns) < 2 ^ 63"
    using Cons.prems(2) a by simp
  have "bounded_heights (c + length (users nodes n)) (absorb_target_inputs nodes n hm)"
    unfolding absorb_target_inputs_users by (rule bounded_users [OF Cons.prems(1) c1])
  then have "bounded_heights (c + length (users nodes n) + absorb_count nodes ns)
      (fold (absorb_target_inputs nodes) ns (absorb_target_inputs nodes n hm))"
    using c2 by (rule Cons.IH)
  moreover have "c + absorb_count nodes (n # ns)
      = c + length (users nodes n) + absorb_count nodes ns"
    using a by simp
  ultimately show ?case by (simp only: fold_Cons o_apply)
qed

lemma bounded_seed: "bounded_heights 0 (seed_height_maps nodes ops)"
  by (simp add: bounded_heights_def seed_height_maps_apply)

lemma absorb_count_rev: "absorb_count nodes (rev order) = absorb_count nodes order"
  by (simp add: absorb_count_def rev_map [symmetric])

lemma bounded_compute:
  assumes "int (absorb_count nodes order) < 2 ^ 63"
  shows "bounded_heights (absorb_count nodes order) (compute_height_maps nodes ops order)"
  using bounded_nodes [OF bounded_seed, of nodes "rev order" nodes ops] assms
  by (simp add: compute_height_maps_def absorb_count_rev)

lemma jump_set_height_differences:
  assumes "\<And>k v. map_of a k = Some v \<Longrightarrow> 0 \<le> sint v"
    and "\<And>k v. map_of b k = Some v \<Longrightarrow> 0 \<le> sint v"
  shows "jump_set a b = height_differences a b"
proof -
  have e: "sint (std_abs (t - v)) = \<bar>sint v - sint t\<bar>"
    if "map_of a k = Some v" "map_of b k = Some t" for k v t
    using sint_std_abs_diff [OF assms(2) [OF that(2)] assms(1) [OF that(1)]] by simp
  show ?thesis
  proof (rule set_eqI)
    fix x
    show "x \<in> jump_set a b \<longleftrightarrow> x \<in> height_differences a b"
    proof
      assume "x \<in> jump_set a b"
      then obtain k v t where "x = sint (std_abs (t - v))"
        and m: "map_of a k = Some v" "map_of b k = Some t"
        unfolding jump_set_def by blast
      then have "x = \<bar>sint v - sint t\<bar>" using e by simp
      with m show "x \<in> height_differences a b" unfolding height_differences_def by blast
    next
      assume "x \<in> height_differences a b"
      then obtain k v t where "x = \<bar>sint v - sint t\<bar>"
        and m: "map_of a k = Some v" "map_of b k = Some t"
        unfolding height_differences_def by blast
      then have "x = sint (std_abs (t - v))" using e by simp
      with m show "x \<in> jump_set a b" unfolding jump_set_def by blast
    qed
  qed
qed

lemma finite_height_differences: "finite (height_differences a b)"
proof -
  have "height_differences a b
      \<subseteq> (\<lambda>(k, v). \<bar>sint v - sint (the (map_of b k))\<bar>) ` set a"
  proof
    fix x assume "x \<in> height_differences a b"
    then obtain k v t where x: "x = \<bar>sint v - sint t\<bar>"
      and a: "map_of a k = Some v" and b: "map_of b k = Some t"
      unfolding height_differences_def by blast
    from a have "(k, v) \<in> set a" by (rule map_of_SomeD)
    moreover have "x = (\<lambda>(k, v). \<bar>sint v - sint (the (map_of b k))\<bar>) (k, v)"
      using x b by simp
    ultimately show "x \<in> (\<lambda>(k, v). \<bar>sint v - sint (the (map_of b k))\<bar>) ` set a"
      by (rule rev_image_eqI)
  qed
  then show ?thesis by (rule finite_subset) simp
qed

lemma Max_insert_0:
  "Max (insert 0 (height_differences a b)) = spec_jump_distance a b"
proof (cases "height_differences a b = {}")
  case True
  then show ?thesis by (simp add: spec_jump_distance_def)
next
  case False
  then obtain x where x: "x \<in> height_differences a b" by blast
  then have "0 \<le> x" by (auto simp add: height_differences_def)
  moreover have "x \<le> Max (height_differences a b)"
    using finite_height_differences x by (rule Max_ge)
  ultimately have "0 \<le> Max (height_differences a b)" by simp
  then show ?thesis
    using False finite_height_differences [of a b] by (simp add: spec_jump_distance_def max_def)
qed

text \<open>
  Claim C4: for the height maps the analysis computes for any two nodes \<open>N\<close> and \<open>M\<close>
  (the analysis making fewer than \<open>2^63\<close> calls of \<^verbatim>\<open>absorb\<close>, so that no height
  overflows), the jump distance from \<open>N\<close> to \<open>M\<close> is the maximum, over the sinks
  recorded in both maps, of the absolute difference of the two heights, and 0 when no
  sink is recorded in both.
\<close>

theorem max_jump_to_is_spec_jump_distance:
  assumes "int (absorb_count nodes order) < 2 ^ 63"
  shows "sint (max_jump_to (compute_height_maps nodes ops order N)
                           (compute_height_maps nodes ops order M))
       = spec_jump_distance (compute_height_maps nodes ops order N)
                            (compute_height_maps nodes ops order M)"
proof -
  let ?H = "compute_height_maps nodes ops order"
  have b: "bounded_heights (absorb_count nodes order) ?H" using assms by (rule bounded_compute)
  have d: "distinct (map fst (?H N))" using b by (simp add: bounded_heights_def)
  have p: "\<And>n k v. map_of (?H n) k = Some v \<Longrightarrow> 0 \<le> sint v"
    using b by (simp add: bounded_heights_def)
  have "sint (max_jump_to (?H N) (?H M)) = Max (insert 0 (jump_set (?H N) (?H M)))"
    using d by (rule sint_max_jump_to)
  also have "jump_set (?H N) (?H M) = height_differences (?H N) (?H M)"
    by (rule jump_set_height_differences) (erule p)+
  finally show ?thesis by (simp only: Max_insert_0)
qed

theorem max_jump_to_is_spec_jump_distance_witness:
  "int (absorb_count path_graph [1, 2, 3, 4]) < 2 ^ 63
   \<and> sint (max_jump_to (compute_height_maps path_graph [1, 2, 3, 4] [1, 2, 3, 4] 1)
                        (compute_height_maps path_graph [1, 2, 3, 4] [1, 2, 3, 4] 2))
       = spec_jump_distance (compute_height_maps path_graph [1, 2, 3, 4] [1, 2, 3, 4] 1)
                            (compute_height_maps path_graph [1, 2, 3, 4] [1, 2, 3, 4] 2)"
proof -
  have c: "int (absorb_count path_graph [1, 2, 3, 4]) < 2 ^ 63"
    by (simp add: absorb_count_def users_def path_graph_def unary_node_def)
  show ?thesis
    using max_jump_to_is_spec_jump_distance [OF c, of "[1, 2, 3, 4]" 1 2] c by blast
qed

section \<open>Properties of the pass\<close>

lemma node_store_render: "node_store (render ext w) = node_store w"
  by (simp add: render_def Let_def)

lemma node_store_functions:
  "node_store (fold (\<lambda>f w. case run_on_function ext (node_store w) f (pass w, statics w) of
                              (this1, st1) \<Rightarrow> w\<lparr>pass := this1, statics := st1\<rparr>) fs w)
   = node_store w"
  by (induction fs arbitrary: w) (simp_all add: split_def)

text \<open>
  Claim C8: the run of the pass, which holds the height and jump-distance analysis, is
  pure with respect to the graph. For every module, every state of the pass and every
  environment, the node store after \<^verbatim>\<open>run_on_module\<close> is the store before: every node
  keeps its kind, its arguments, and its outputs with their users, element types and
  shapes.
\<close>

theorem run_on_module_leaves_graph_unchanged:
  "node_store (fst (run_on_module ext functions w)) = node_store w"
  by (simp add: run_on_module_def Let_def node_store_render node_store_functions)

text \<open>
  Claim C9: for every module, \<^verbatim>\<open>run_on_module\<close> returns false: the pass never signals a
  changed graph.
\<close>

theorem run_on_module_returns_false:
  "snd (run_on_module ext functions w) = False"
  by (simp add: run_on_module_def Let_def)

end
